theory Spec2Isabelle
  imports Complex_Main "HOL-Library.Sublist"
begin

section \<open>Python values and exceptions\<close>

text \<open>
  The backend is Python. Strings are character lists, Python integers are \<open>int\<close>,
  and every exception the code raises or catches is a value of \<open>exn\<close>; a function
  that may raise returns \<open>exn + 'a\<close> with \<open>Inl\<close> for the raised exception.
  \<open>except (IOError, OSError)\<close> catches exactly \<open>OSError\<close> (in Python 3
  \<open>IOError\<close> is an alias of it); \<open>except Exception\<close> catches every constructor.
  \<open>HTTPException\<close> is werkzeug's, with its status code and its text.
\<close>

datatype exn =
    ValueError string
  | TypeError string
  | OSError string
  | AudioProcessingError string
  | AttributeError string
  | HTTPException nat string
  | OtherError string

text \<open>\<open>str(exc)\<close>: the message the exception was built with.\<close>

fun str_exn :: "exn \<Rightarrow> string" where
  "str_exn (ValueError m) = m"
| "str_exn (TypeError m) = m"
| "str_exn (OSError m) = m"
| "str_exn (AudioProcessingError m) = m"
| "str_exn (AttributeError m) = m"
| "str_exn (HTTPException code m) = m"
| "str_exn (OtherError m) = m"

fun is_OSError :: "exn \<Rightarrow> bool" where
  "is_OSError (OSError m) = True"
| "is_OSError e = False"

section \<open>String operations\<close>

text \<open>
  \<open>str.lower()\<close> on the ASCII range: the letters A to Z move to a to z, every other
  character stays. (Outside ASCII the only character that Python lowers to an ASCII
  letter is the Kelvin sign, to \<open>k\<close>, which occurs in no extension of this program.)
\<close>

definition lower_char :: "char \<Rightarrow> char" where
  "lower_char c =
     (case map_of (zip ''ABCDEFGHIJKLMNOPQRSTUVWXYZ'' ''abcdefghijklmnopqrstuvwxyz'') c of
        Some d \<Rightarrow> d
      | None \<Rightarrow> c)"

definition lower :: "string \<Rightarrow> string" where
  "lower s = map lower_char s"

text \<open>\<open>s.rfind(c)\<close>: the index of the last occurrence of \<open>c\<close>, if there is one.\<close>

fun rfind :: "char \<Rightarrow> string \<Rightarrow> nat option" where
  "rfind c [] = None"
| "rfind c (x # xs) =
     (case rfind c xs of
        Some i \<Rightarrow> Some (Suc i)
      | None \<Rightarrow> if x = c then Some 0 else None)"

text \<open>
  \<open>s.rsplit(c, 1)\<close>: one split at the last occurrence of \<open>c\<close>; the whole string
  alone when \<open>c\<close> does not occur.
\<close>

definition rsplit1 :: "char \<Rightarrow> string \<Rightarrow> string list" where
  "rsplit1 c s =
     (case rfind c s of
        None \<Rightarrow> [s]
      | Some i \<Rightarrow> [take i s, drop (Suc i) s])"

text \<open>\<open>kw in s\<close> on strings: \<open>kw\<close> occurs in \<open>s\<close> as a contiguous substring.\<close>

fun str_contains :: "string \<Rightarrow> string \<Rightarrow> bool" where
  "str_contains kw [] = (kw = [])"
| "str_contains kw (c # cs) = (prefix kw (c # cs) \<or> str_contains kw cs)"

text \<open>\<open>str(n)\<close> for an integer: decimal digits, with a minus sign when negative.\<close>

definition digit_char :: "nat \<Rightarrow> char" where
  "digit_char d = ''0123456789'' ! d"

fun str_nat :: "nat \<Rightarrow> string" where
  "str_nat n = (if n < 10 then [digit_char n] else str_nat (n div 10) @ [digit_char (n mod 10)])"

declare str_nat.simps [simp del]

definition str_int :: "int \<Rightarrow> string" where
  "str_int i = (if i < 0 then CHR ''-'' # str_nat (nat (- i)) else str_nat (nat i))"

text \<open>
  \<open>os.path.join(a, b)\<close> on POSIX: an absolute \<open>b\<close> replaces \<open>a\<close>; otherwise the two
  are joined by one slash, unless \<open>a\<close> is empty or already ends with one.
\<close>

definition os_path_join :: "string \<Rightarrow> string \<Rightarrow> string" where
  "os_path_join a b =
     (if b \<noteq> [] \<and> hd b = CHR ''/'' then b
      else if a = [] \<or> last a = CHR ''/'' then a @ b
      else a @ ''/'' @ b)"

text \<open>
  \<open>int(s)\<close> for a string of characters below 256. The characters that \<open>int\<close> skips
  at both ends are tab, line feed, vertical tab, form feed, carriage return, space and,
  above ASCII, next line (0x85) and no-break space (0xA0); the separators 0x1C to 0x1F
  are not skipped. Then one sign is allowed, then decimal digits, where single
  underscores may stand between digits. More than 4300 digits are refused (the default
  of \<open>sys.int_max_str_digits\<close>). \<open>None\<close> stands for the \<open>ValueError\<close> that \<open>int\<close>
  raises.
\<close>

definition int_space :: "char \<Rightarrow> bool" where
  "int_space c =
     (c \<in> set [CHR 0x09, CHR 0x0A, CHR 0x0B, CHR 0x0C, CHR 0x0D, CHR '' '',
                CHR 0x85, CHR 0xA0])"

definition int_strip :: "string \<Rightarrow> string" where
  "int_strip s = rev (dropWhile int_space (rev (dropWhile int_space s)))"

definition digit_val :: "char \<Rightarrow> nat option" where
  "digit_val = map_of (zip ''0123456789'' [0, 1, 2, 3, 4, 5, 6, 7, 8, 9])"

fun parse_digits :: "string \<Rightarrow> nat \<Rightarrow> bool \<Rightarrow> nat option" where
  "parse_digits [] acc after_digit = (if after_digit then Some acc else None)"
| "parse_digits (c # cs) acc after_digit =
     (if c = CHR ''_''
      then (if after_digit \<and> cs \<noteq> [] then parse_digits cs acc False else None)
      else case digit_val c of
             None \<Rightarrow> None
           | Some d \<Rightarrow> parse_digits cs (10 * acc + d) True)"

definition int_max_str_digits :: nat where
  "int_max_str_digits = 4300"

definition parse_limited :: "string \<Rightarrow> nat option" where
  "parse_limited ds =
     (if length (filter (\<lambda>c. c \<noteq> CHR ''_'') ds) > int_max_str_digits then None
      else parse_digits ds 0 False)"

definition py_int :: "string \<Rightarrow> int option" where
  "py_int s =
     (case int_strip s of
        [] \<Rightarrow> None
      | c # cs \<Rightarrow>
          if c = CHR ''-'' then map_option (\<lambda>n. - int n) (parse_limited cs)
          else if c = CHR ''+'' then map_option int (parse_limited cs)
          else map_option int (parse_limited (c # cs)))"

text \<open>
  The Python values that cross the boundary between the request layer and the processor:
  call arguments, settings dictionaries (association lists, first binding wins) and the
  metadata dictionary. A Python float is idealised as a rational.
\<close>

datatype pyval =
    PNone
  | PBool bool
  | PInt int
  | PFloat rat
  | PStr string
  | PList "pyval list"
  | PDict "(string \<times> pyval) list"

text \<open>Python truthiness, as \<open>if x:\<close> tests it.\<close>

fun truthy :: "pyval \<Rightarrow> bool" where
  "truthy PNone = False"
| "truthy (PBool b) = b"
| "truthy (PInt i) = (i \<noteq> 0)"
| "truthy (PFloat r) = (r \<noteq> 0)"
| "truthy (PStr s) = (s \<noteq> [])"
| "truthy (PList xs) = (xs \<noteq> [])"
| "truthy (PDict kvs) = (kvs \<noteq> [])"

text \<open>\<open>d.get(k, default)\<close>.\<close>

definition dict_get :: "(string \<times> pyval) list \<Rightarrow> string \<Rightarrow> pyval \<Rightarrow> pyval" where
  "dict_get d k dflt = (case map_of d k of Some v \<Rightarrow> v | None \<Rightarrow> dflt)"

section \<open>The processing layer: \<open>audio_processor.py\<close>\<close>

text \<open>
  The audio library (pydub) is external. Its segment type is the type variable \<open>'seg\<close>
  and the operations the processor calls on it are the fields of \<open>pydub\<close>; each may
  raise. \<open>export\<close> gives \<open>None\<close> when the file was written.
\<close>

record 'seg pydub =
  from_file :: "string \<Rightarrow> exn + 'seg"
  seg_len :: "'seg \<Rightarrow> int"
  seg_add :: "'seg \<Rightarrow> 'seg \<Rightarrow> exn + 'seg"
  seg_append :: "'seg \<Rightarrow> 'seg \<Rightarrow> int \<Rightarrow> exn + 'seg"
  seg_slice :: "'seg \<Rightarrow> int \<Rightarrow> int \<Rightarrow> exn + 'seg"
  set_frame_rate :: "'seg \<Rightarrow> pyval \<Rightarrow> exn + 'seg"
  effects_normalize :: "'seg \<Rightarrow> exn + 'seg"
  export :: "'seg \<Rightarrow> string \<Rightarrow> (string \<times> pyval) list \<Rightarrow> exn option"
  seg_channels :: "'seg \<Rightarrow> pyval"
  seg_frame_rate :: "'seg \<Rightarrow> pyval"
  seg_sample_width :: "'seg \<Rightarrow> pyval"
  seg_frame_count :: "'seg \<Rightarrow> pyval"
  seg_dBFS :: "'seg \<Rightarrow> pyval"

definition supported_formats :: "string set" where
  "supported_formats = {''wav'', ''mp3'', ''ogg'', ''flac'', ''m4a''}"

text \<open>
  The order in which \<open>', '.join(self.supported_formats)\<close> walks the set is not fixed
  by Python; one order is chosen here. Only the error text depends on it.
\<close>

definition supported_formats_joined :: string where
  "supported_formats_joined = ''wav, mp3, ogg, flac, m4a''"

definition default_bitrates :: "string \<Rightarrow> string option" where
  "default_bitrates = map_of [(''mp3'', ''192k''), (''ogg'', ''128k''), (''m4a'', ''128k'')]"

definition CLEANUP_THRESHOLD_SECONDS :: real where
  "CLEANUP_THRESHOLD_SECONDS = 3600"

text \<open>\<open>_validate_format\<close>: raises \<open>ValueError\<close> for a format outside the set.\<close>

definition validate_format :: "string \<Rightarrow> exn + unit" where
  "validate_format format_str =
     (if lower format_str \<notin> supported_formats
      then Inl (ValueError (''Unsupported format: '' @ format_str @
                            ''. Supported formats: '' @ supported_formats_joined))
      else Inr ())"

text \<open>
  \<open>_generate_output_path\<close>. \<open>uid\<close> is the value of \<open>uuid.uuid4().hex\<close> at this
  call; \<open>upload_folder\<close> is the processor's output directory.
\<close>

definition generate_output_path :: "string \<Rightarrow> string \<Rightarrow> string \<Rightarrow> string \<Rightarrow> string" where
  "generate_output_path upload_folder uid sfx extension =
     os_path_join upload_folder (uid @ ''_'' @ sfx @ ''.'' @ extension)"

text \<open>
  \<open>except (IOError, OSError) as exc: raise AudioProcessingError(f"<what>: {exc}")\<close>
  around a block: an \<open>OSError\<close> is replaced, everything else passes through.
\<close>

fun reraise_os :: "string \<Rightarrow> exn + 'a \<Rightarrow> exn + 'a" where
  "reraise_os what (Inl (OSError m)) = Inl (AudioProcessingError (what @ '': '' @ m))"
| "reraise_os what r = r"

text \<open>
  The export parameters shared by \<open>convert_format\<close> and \<open>merge_files\<close>: the format,
  the default bit rate of the format if it has one, and the quality flag for mp3.
\<close>

definition default_export_params :: "string \<Rightarrow> (string \<times> pyval) list" where
  "default_export_params fmt =
     [(''format'', PStr fmt)]
     @ (case default_bitrates fmt of Some b \<Rightarrow> [(''bitrate'', PStr b)] | None \<Rightarrow> [])
     @ (if fmt = ''mp3'' then [(''parameters'', PList [PStr ''-q:a'', PStr ''2''])] else [])"

definition convert_format ::
  "'seg pydub \<Rightarrow> string \<Rightarrow> string \<Rightarrow> string \<Rightarrow> string \<Rightarrow> exn + string" where
  "convert_format pd upload_folder uid input_path target_format =
     (case validate_format target_format of
        Inl e \<Rightarrow> Inl e
      | Inr u \<Rightarrow>
          reraise_os ''Conversion failed''
            (case from_file pd input_path of
               Inl e \<Rightarrow> Inl e
             | Inr audio \<Rightarrow>
                 (let output_path = generate_output_path upload_folder uid ''converted'' target_format
                  in case export pd audio output_path (default_export_params target_format) of
                       Some e \<Rightarrow> Inl e
                     | None \<Rightarrow> Inr output_path)))"

text \<open>The loop of \<open>merge_files\<close> over \<open>file_paths[1:]\<close>.\<close>

fun merge_loop :: "'seg pydub \<Rightarrow> int \<Rightarrow> 'seg \<Rightarrow> string list \<Rightarrow> exn + 'seg" where
  "merge_loop pd crossfade_ms merged [] = Inr merged"
| "merge_loop pd crossfade_ms merged (path # paths) =
     (case from_file pd path of
        Inl e \<Rightarrow> Inl e
      | Inr audio \<Rightarrow>
          (case (if crossfade_ms > 0 then seg_append pd merged audio crossfade_ms
                 else seg_add pd merged audio) of
             Inl e \<Rightarrow> Inl e
           | Inr merged' \<Rightarrow> merge_loop pd crossfade_ms merged' paths))"

definition merge_files ::
  "'seg pydub \<Rightarrow> string \<Rightarrow> string \<Rightarrow> string list \<Rightarrow> string \<Rightarrow> int \<Rightarrow> exn + string" where
  "merge_files pd upload_folder uid file_paths output_format crossfade_ms =
     (if length file_paths < 2 then Inl (ValueError ''Need at least 2 files to merge'')
      else case validate_format output_format of
        Inl e \<Rightarrow> Inl e
      | Inr u \<Rightarrow>
          reraise_os ''Merge failed''
            (case from_file pd (hd file_paths) of
               Inl e \<Rightarrow> Inl e
             | Inr first \<Rightarrow>
                 (case merge_loop pd crossfade_ms first (tl file_paths) of
                    Inl e \<Rightarrow> Inl e
                  | Inr merged \<Rightarrow>
                      (let output_path =
                             generate_output_path upload_folder uid ''merged'' output_format
                       in case export pd merged output_path (default_export_params output_format) of
                            Some e \<Rightarrow> Inl e
                          | None \<Rightarrow> Inr output_path))))"

text \<open>
  \<open>export_with_settings(input_path, target_format, settings)\<close>: the third parameter is
  one dictionary holding the optional \<open>normalize_audio\<close>, \<open>sample_rate\<close> and
  \<open>bitrate\<close>.
\<close>

definition export_with_settings ::
  "'seg pydub \<Rightarrow> string \<Rightarrow> string \<Rightarrow> string \<Rightarrow> string \<Rightarrow> (string \<times> pyval) list
     \<Rightarrow> exn + string" where
  "export_with_settings pd upload_folder uid input_path target_format settings =
     (case validate_format target_format of
        Inl e \<Rightarrow> Inl e
      | Inr u \<Rightarrow>
          reraise_os ''Export with settings failed''
            (case from_file pd input_path of
               Inl e \<Rightarrow> Inl e
             | Inr audio \<Rightarrow>
                 (let normalize_audio = dict_get settings ''normalize_audio'' (PBool False);
                      sample_rate = dict_get settings ''sample_rate'' PNone;
                      bitrate = dict_get settings ''bitrate'' PNone
                  in case (if truthy normalize_audio then effects_normalize pd audio else Inr audio) of
                       Inl e \<Rightarrow> Inl e
                     | Inr audio1 \<Rightarrow>
                         (case (if sample_rate \<noteq> PNone then set_frame_rate pd audio1 sample_rate
                                else Inr audio1) of
                            Inl e \<Rightarrow> Inl e
                          | Inr audio2 \<Rightarrow>
                              (let output_path =
                                     generate_output_path upload_folder uid ''export'' target_format;
                                   export_params =
                                     [(''format'', PStr target_format)]
                                     @ (if truthy bitrate then [(''bitrate'', bitrate)]
                                        else case default_bitrates target_format of
                                               Some b \<Rightarrow> [(''bitrate'', PStr b)]
                                             | None \<Rightarrow> [])
                                     @ (if target_format = ''mp3''
                                        then [(''parameters'', PList [PStr ''-q:a'', PStr ''2''])]
                                        else [])
                               in case export pd audio2 output_path export_params of
                                    Some e \<Rightarrow> Inl e
                                  | None \<Rightarrow> Inr output_path)))))"

text \<open>
  \<open>trim_audio\<close>. The range check sits inside the \<open>try\<close>, but the \<open>ValueError\<close> it
  raises is not an \<open>OSError\<close> and leaves the function as it is.
\<close>

definition trim_audio ::
  "'seg pydub \<Rightarrow> string \<Rightarrow> string \<Rightarrow> string \<Rightarrow> int \<Rightarrow> int \<Rightarrow> string \<Rightarrow> exn + string" where
  "trim_audio pd upload_folder uid input_path start_ms end_ms output_format =
     (case validate_format output_format of
        Inl e \<Rightarrow> Inl e
      | Inr u \<Rightarrow>
          reraise_os ''Trim failed''
            (case from_file pd input_path of
               Inl e \<Rightarrow> Inl e
             | Inr audio \<Rightarrow>
                 (let duration_ms = seg_len pd audio
                  in if start_ms < 0 \<or> end_ms > duration_ms \<or> start_ms \<ge> end_ms
                     then Inl (ValueError (''Invalid time range: '' @ str_int start_ms @ ''-'' @
                                 str_int end_ms @ ''ms (audio duration: '' @
                                 str_int duration_ms @ ''ms)''))
                     else case seg_slice pd audio start_ms end_ms of
                            Inl e \<Rightarrow> Inl e
                          | Inr trimmed \<Rightarrow>
                              (let output_path =
                                     generate_output_path upload_folder uid ''trimmed'' output_format
                               in case export pd trimmed output_path
                                         [(''format'', PStr output_format)] of
                                    Some e \<Rightarrow> Inl e
                                  | None \<Rightarrow> Inr output_path))))"

text \<open>
  \<open>get_audio_info\<close>: the metadata dictionary. Here \<open>AttributeError\<close> is caught
  along with \<open>OSError\<close>.
\<close>

definition get_audio_info :: "'seg pydub \<Rightarrow> string \<Rightarrow> exn + pyval" where
  "get_audio_info pd input_path =
     (case from_file pd input_path of
        Inl (OSError m) \<Rightarrow> Inl (AudioProcessingError (''Failed to get audio info: '' @ m))
      | Inl (AttributeError m) \<Rightarrow>
          Inl (AudioProcessingError (''Failed to get audio info: '' @ m))
      | Inl e \<Rightarrow> Inl e
      | Inr audio \<Rightarrow>
          Inr (PDict [(''duration_seconds'', PFloat (Fract (seg_len pd audio) 1000)),
                      (''channels'', seg_channels pd audio),
                      (''sample_rate'', seg_frame_rate pd audio),
                      (''sample_width'', seg_sample_width pd audio),
                      (''frame_count'', seg_frame_count pd audio),
                      (''dBFS'', seg_dBFS pd audio)]))"

subsection \<open>The output directory and the sweep\<close>

text \<open>
  What \<open>cleanup_old_files\<close> can observe of one entry of the output directory: its name,
  whether \<open>os.path.isdir\<close> holds, what \<open>os.path.getmtime\<close> gives (\<open>None\<close>: it
  raises \<open>OSError\<close>) and whether \<open>os.remove\<close> succeeds (\<open>False\<close>: it raises
  \<open>OSError\<close>). Times are seconds since the epoch; the floats of \<open>time.time\<close>
  and \<open>getmtime\<close> are idealised as real numbers.
\<close>

record dir_entry =
  entry_name :: string
  entry_is_dir :: bool
  entry_mtime :: "real option"
  entry_removable :: bool

text \<open>
  The directory: whether it exists, whether \<open>os.listdir\<close> raises, and its entries in
  the order \<open>os.listdir\<close> gives them.
\<close>

record folder =
  folder_exists :: bool
  listdir_fails :: bool
  entries :: "dir_entry list"

text \<open>
  The \<open>for\<close> loop of the sweep, with the running count and the names removed so far.
  The first component of the result is the \<open>OSError\<close> that ended the loop, if one did:
  the \<open>try\<close> encloses the whole loop, so nothing after the raising call runs.
\<close>

fun sweep :: "real \<Rightarrow> dir_entry list \<Rightarrow> int \<Rightarrow> string list \<Rightarrow> exn option \<times> int \<times> string list" where
  "sweep cutoff [] cleaned_count removed = (None, cleaned_count, removed)"
| "sweep cutoff (e # es) cleaned_count removed =
     (if entry_is_dir e then sweep cutoff es cleaned_count removed
      else case entry_mtime e of
             None \<Rightarrow> (Some (OSError (''getmtime: '' @ entry_name e)), cleaned_count, removed)
           | Some t \<Rightarrow>
               if t < cutoff
               then (if entry_removable e
                     then sweep cutoff es (cleaned_count + 1) (removed @ [entry_name e])
                     else (Some (OSError (''remove: '' @ entry_name e)), cleaned_count, removed))
               else sweep cutoff es cleaned_count removed)"

text \<open>
  \<open>cleanup_old_files\<close> at time \<open>now\<close>: the count returned, the directory afterwards and
  the lines printed.
\<close>

definition cleanup_old_files :: "real \<Rightarrow> folder \<Rightarrow> int \<times> folder \<times> string list" where
  "cleanup_old_files now d =
     (let cutoff = now - CLEANUP_THRESHOLD_SECONDS
      in if \<not> folder_exists d then (0, d, [])
         else if listdir_fails d
         then (0, d, [''Error during cleanup: '' @ ''listdir''])
         else case sweep cutoff (entries d) 0 [] of
                (None, cleaned_count, removed) \<Rightarrow>
                  (cleaned_count,
                   d\<lparr>entries := filter (\<lambda>e. entry_name e \<notin> set removed) (entries d)\<rparr>, [])
              | (Some exc, cleaned_count, removed) \<Rightarrow>
                  (cleaned_count,
                   d\<lparr>entries := filter (\<lambda>e. entry_name e \<notin> set removed) (entries d)\<rparr>,
                   [''Error during cleanup: '' @ str_exn exc]))"

section \<open>The request layer: \<open>app.py\<close>\<close>

definition UPLOAD_FOLDER :: string where
  "UPLOAD_FOLDER = ''uploads''"

definition ALLOWED_EXTENSIONS :: "string set" where
  "ALLOWED_EXTENSIONS = {''wav'', ''mp3'', ''ogg'', ''flac''}"

text \<open>
  \<open>allowed_file\<close>: \<open>'.' in filename and filename.rsplit('.', 1)[1].lower() in
  ALLOWED_EXTENSIONS\<close>. The index \<open>[1]\<close> is only evaluated when the name holds a dot
  (\<open>and\<close> short-circuits), and then the split has two parts (lemma
  \<open>rsplit1_length\<close>), so no \<open>IndexError\<close> can arise.
\<close>

definition allowed_file :: "string \<Rightarrow> bool" where
  "allowed_file filename =
     (CHR ''.'' \<in> set filename \<and>
      lower (rsplit1 CHR ''.'' filename ! 1) \<in> ALLOWED_EXTENSIONS)"

subsection \<open>The processor as the request layer sees it\<close>

text \<open>
  \<open>app.py\<close> holds one module-level \<open>processor\<close> and calls four of its methods with
  positional arguments. A method is modelled by what a call with these arguments gives:
  the exception raised or the value returned. The handlers below take the processor as
  a parameter; the tests replace \<open>processor\<close> by a mock.
\<close>

record processor =
  call_convert_format :: "pyval list \<Rightarrow> exn + string"
  call_merge_files :: "pyval list \<Rightarrow> exn + string"
  call_export_with_settings :: "pyval list \<Rightarrow> exn + string"
  call_get_audio_info :: "pyval list \<Rightarrow> exn + pyval"

text \<open>
  Python's check of a call against a signature with \<open>expected\<close> positional parameters
  besides \<open>self\<close>. The text is the one Python prints when too many arguments are given.
\<close>

definition arity_error :: "string \<Rightarrow> nat \<Rightarrow> nat \<Rightarrow> exn" where
  "arity_error name expected given =
     (if given > expected
      then TypeError (''AudioProcessor.'' @ name @ ''() takes '' @ str_nat (Suc expected) @
                      '' positional arguments but '' @ str_nat (Suc given) @ '' were given'')
      else TypeError (''AudioProcessor.'' @ name @ ''() missing '' @
                      str_nat (expected - given) @ '' required positional arguments''))"

fun py_strs :: "pyval list \<Rightarrow> string list option" where
  "py_strs [] = Some []"
| "py_strs (PStr s # vs) = map_option (\<lambda>ss. s # ss) (py_strs vs)"
| "py_strs (v # vs) = None"

text \<open>
  Modelled from the spec: the class \<open>backend.AudioProcessor\<close>, from which \<open>app.py\<close>
  builds \<open>processor\<close>, is not among the sources. The spec describes its operations
  (convert, merge, export with settings, metadata), and \<open>audio_processor.py\<close> holds a
  class of the same name with these operations, which are the ones modelled above; the
  operations \<open>convert_format\<close>, \<open>merge_files\<close> and \<open>get_audio_info\<close> are taken
  from there. For \<open>export_with_settings\<close> the class that \<open>app.py\<close> uses receives the
  bit rate and the sample rate as arguments of their own (so \<open>app.py\<close> passes them, and
  so \<open>test_AudioProcessor.py\<close> calls it), where \<open>audio_processor.py\<close> takes one
  dictionary; it then does what the spec says of the export: resample when a rate is
  given, encode with the given bit rate or else the default of the format. The
  functions below bind the positional arguments of a call to the parameters. Argument
  shapes that \<open>app.py\<close> never produces end in \<open>OtherError\<close> or in an error of arity.
\<close>

fun bind_convert_format ::
  "'seg pydub \<Rightarrow> string \<Rightarrow> string \<Rightarrow> pyval list \<Rightarrow> exn + string" where
  "bind_convert_format pd upload_folder uid [PStr input_path, PStr target_format] =
     convert_format pd upload_folder uid input_path target_format"
| "bind_convert_format pd upload_folder uid args =
     (if length args = 2 then Inl (OtherError ''convert_format: argument types'')
      else Inl (arity_error ''convert_format'' 2 (length args)))"

fun bind_merge_files ::
  "'seg pydub \<Rightarrow> string \<Rightarrow> string \<Rightarrow> pyval list \<Rightarrow> exn + string" where
  "bind_merge_files pd upload_folder uid [PList file_paths, PStr output_format] =
     (case py_strs file_paths of
        Some paths \<Rightarrow> merge_files pd upload_folder uid paths output_format 0
      | None \<Rightarrow> Inl (OtherError ''merge_files: argument types''))"
| "bind_merge_files pd upload_folder uid args =
     (if length args = 2 then Inl (OtherError ''merge_files: argument types'')
      else Inl (arity_error ''merge_files'' 3 (length args)))"

fun bind_export_with_settings ::
  "'seg pydub \<Rightarrow> string \<Rightarrow> string \<Rightarrow> pyval list \<Rightarrow> exn + string" where
  "bind_export_with_settings pd upload_folder uid
     [PStr input_path, PStr target_format, bitrate, sample_rate] =
     export_with_settings pd upload_folder uid input_path target_format
       [(''bitrate'', bitrate), (''sample_rate'', sample_rate)]"
| "bind_export_with_settings pd upload_folder uid args =
     (if length args = 4 then Inl (OtherError ''export_with_settings: argument types'')
      else Inl (arity_error ''export_with_settings'' 4 (length args)))"

fun bind_get_audio_info :: "'seg pydub \<Rightarrow> pyval list \<Rightarrow> exn + pyval" where
  "bind_get_audio_info pd [PStr input_path] = get_audio_info pd input_path"
| "bind_get_audio_info pd args =
     (if length args = 1 then Inl (OtherError ''get_audio_info: argument types'')
      else Inl (arity_error ''get_audio_info'' 1 (length args)))"

text \<open>
  Modelled from the spec: the processor of \<open>app.py\<close>, an instance of the absent
  \<open>backend.AudioProcessor\<close>, over an audio library \<open>pd\<close>, with output directory
  \<open>upload_folder\<close> and \<open>uid\<close> the uuid it draws for its output file.
\<close>

definition real_processor :: "'seg pydub \<Rightarrow> string \<Rightarrow> string \<Rightarrow> processor" where
  "real_processor pd upload_folder uid =
     \<lparr>call_convert_format = bind_convert_format pd upload_folder uid,
      call_merge_files = bind_merge_files pd upload_folder uid,
      call_export_with_settings = bind_export_with_settings pd upload_folder uid,
      call_get_audio_info = bind_get_audio_info pd\<rparr>"

subsection \<open>Requests, responses and the world of a handler\<close>

text \<open>
  A multipart request: the length of its body, the uploaded files as pairs of form field
  and file name (a field may occur several times), and the text fields.
  \<open>request.files['file']\<close> and \<open>request.form.get\<close> take the first binding.
\<close>

record request =
  req_content_length :: nat
  req_files :: "(string \<times> string) list"
  req_form :: "(string \<times> string) list"

definition MAX_FILE_SIZE :: nat where
  "MAX_FILE_SIZE = 50 * 1024 * 1024"

text \<open>
  \<open>app.config['MAX_CONTENT_LENGTH'] = MAX_FILE_SIZE\<close>: the first use of
  \<open>request.files\<close> parses the body, and for a body longer than the limit it raises
  werkzeug's \<open>RequestEntityTooLarge\<close>. Every handler uses \<open>request.files\<close> before
  \<open>request.form\<close>.
\<close>

definition RequestEntityTooLarge :: exn where
  "RequestEntityTooLarge =
     HTTPException 413
       ''413 Request Entity Too Large: The data value transmitted exceeds the capacity limit.''"

definition request_files :: "request \<Rightarrow> exn + (string \<times> string) list" where
  "request_files req =
     (if req_content_length req > MAX_FILE_SIZE then Inl RequestEntityTooLarge
      else Inr (req_files req))"

definition getlist :: "(string \<times> string) list \<Rightarrow> string \<Rightarrow> string list" where
  "getlist multi k = map snd (filter (\<lambda>kv. fst kv = k) multi)"

text \<open>
  A response: the status, the body (\<open>jsonify\<close> of a value, \<open>send_file\<close> of a path
  under a download name, or the error page of the framework) and the paths that the
  function registered with \<open>call_on_close\<close> will pass to \<open>_cleanup_paths\<close>.
\<close>

datatype body = JsonBody pyval | FileBody string string | ErrorPage string

record response =
  status :: nat
  body :: body
  call_on_close :: "string option list"

text \<open>
  An exception that leaves a view function is answered by Flask: an \<open>HTTPException\<close>
  with its own status code, anything else with 500.
\<close>

fun unhandled :: "exn \<Rightarrow> response" where
  "unhandled (HTTPException code m) = \<lparr>status = code, body = ErrorPage m, call_on_close = []\<rparr>"
| "unhandled exc = \<lparr>status = 500, body = ErrorPage ''Internal Server Error'', call_on_close = []\<rparr>"

definition json_error :: "nat \<Rightarrow> string \<Rightarrow> response" where
  "json_error code msg =
     \<lparr>status = code, body = JsonBody (PDict [(''error'', PStr msg)]), call_on_close = []\<rparr>"

text \<open>
  What a handler does to its surroundings, in order: uploads saved, \<open>os.remove\<close> calls,
  calls of the processor, warnings logged.
\<close>

datatype event =
    FileSave string
  | OsRemove string
  | ProcCall string "pyval list"
  | LogWarning string

text \<open>
  The world a handler runs in: the files on disk, the events so far and the number of
  \<open>uuid.uuid4()\<close> calls made.
\<close>

record world =
  fs :: "string set"
  trace :: "event list"
  uuids_drawn :: nat

text \<open>
  What the handlers take from outside the repository: the values of \<open>uuid4().hex\<close>,
  werkzeug's \<open>secure_filename\<close>, whether saving, removing or sending a path raises,
  and the processor.
\<close>

record server =
  uuid_hex :: "nat \<Rightarrow> string"
  secure_filename :: "string \<Rightarrow> string"
  save_raises :: "string \<Rightarrow> exn option"
  remove_blocked :: "string \<Rightarrow> bool"
  send_file_raises :: "string \<Rightarrow> exn option"
  processor :: processor

fun is_ProcCall :: "event \<Rightarrow> bool" where
  "is_ProcCall (ProcCall name args) = True"
| "is_ProcCall ev = False"

definition proc_calls :: "world \<Rightarrow> event list" where
  "proc_calls w = filter is_ProcCall (trace w)"

fun saved_paths :: "event list \<Rightarrow> string list" where
  "saved_paths [] = []"
| "saved_paths (FileSave p # evs) = p # saved_paths evs"
| "saved_paths (ev # evs) = saved_paths evs"

definition uuid4_hex :: "server \<Rightarrow> world \<Rightarrow> string \<times> world" where
  "uuid4_hex env w = (uuid_hex env (uuids_drawn w), w\<lparr>uuids_drawn := Suc (uuids_drawn w)\<rparr>)"

text \<open>\<open>file.save(path)\<close>: the file is on disk afterwards, unless saving raises.\<close>

definition file_save :: "server \<Rightarrow> string \<Rightarrow> world \<Rightarrow> exn option \<times> world" where
  "file_save env path w =
     (case save_raises env path of
        Some e \<Rightarrow> (Some e, w)
      | None \<Rightarrow> (None, w\<lparr>fs := insert path (fs w), trace := trace w @ [FileSave path]\<rparr>))"

text \<open>
  \<open>os.remove(path)\<close>: raises \<open>OSError\<close> when the path cannot be removed or is not
  there; otherwise the file is gone.
\<close>

definition os_remove :: "server \<Rightarrow> string \<Rightarrow> world \<Rightarrow> exn option \<times> world" where
  "os_remove env path w =
     (let w1 = w\<lparr>trace := trace w @ [OsRemove path]\<rparr>
      in if remove_blocked env path then (Some (OSError (''Permission denied: '' @ path)), w1)
         else if path \<notin> fs w then (Some (OSError (''No such file or directory: '' @ path)), w1)
         else (None, w1\<lparr>fs := fs w - {path}\<rparr>))"

text \<open>
  The body of the loop of \<open>_cleanup_paths\<close>: a path that is not \<open>None\<close> or empty is
  removed; an \<open>OSError\<close> is logged, any other exception is dropped.
\<close>

definition cleanup_path :: "server \<Rightarrow> string option \<Rightarrow> world \<Rightarrow> world" where
  "cleanup_path env p w =
     (case p of
        None \<Rightarrow> w
      | Some path \<Rightarrow>
          if path = [] then w
          else (case os_remove env path w of
                  (None, w') \<Rightarrow> w'
                | (Some e, w') \<Rightarrow>
                    if is_OSError e
                    then w'\<lparr>trace := trace w' @
                           [LogWarning (''Failed to remove file during cleanup: '' @ path)]\<rparr>
                    else w'))"

text \<open>\<open>_cleanup_paths\<close>: the loop goes through all the paths, whatever happens.\<close>

fun cleanup_paths :: "server \<Rightarrow> string option list \<Rightarrow> world \<Rightarrow> world" where
  "cleanup_paths env [] w = w"
| "cleanup_paths env (p # ps) w = cleanup_paths env ps (cleanup_path env p w)"

text \<open>A call of a processor method: it is recorded, then it returns or raises.\<close>

definition record_call :: "string \<Rightarrow> pyval list \<Rightarrow> world \<Rightarrow> world" where
  "record_call name args w = w\<lparr>trace := trace w @ [ProcCall name args]\<rparr>"

text \<open>
  When a processor method returns a path, it has written that file. \<open>send_file\<close> then
  builds the attachment response, or raises.
\<close>

definition output_written :: "string \<Rightarrow> world \<Rightarrow> world" where
  "output_written path w = w\<lparr>fs := insert path (fs w)\<rparr>"

definition send_file :: "server \<Rightarrow> string \<Rightarrow> string \<Rightarrow> string option list \<Rightarrow> exn + response" where
  "send_file env path download_name on_close =
     (case send_file_raises env path of
        Some e \<Rightarrow> Inl e
      | None \<Rightarrow> Inr \<lparr>status = 200, body = FileBody path download_name, call_on_close = on_close\<rparr>)"

text \<open>Closing a response runs the registered cleanup.\<close>

definition close_response :: "server \<Rightarrow> response \<Rightarrow> world \<Rightarrow> world" where
  "close_response env r w = cleanup_paths env (call_on_close r) w"

text \<open>\<open>any(kw in str(exc) for kw in error_keywords)\<close>.\<close>

definition any_keyword :: "string list \<Rightarrow> exn \<Rightarrow> bool" where
  "any_keyword error_keywords exc = list_ex (\<lambda>kw. str_contains kw (str_exn exc)) error_keywords"

subsection \<open>\<open>/convert\<close>\<close>

text \<open>
  The \<open>try\<close> block of \<open>convert_audio\<close>. When it raises, the result carries the
  exception and the values \<open>input_path\<close> and \<open>output_path\<close> have at that moment.
\<close>

definition convert_try ::
  "server \<Rightarrow> string \<Rightarrow> string \<Rightarrow> world
     \<Rightarrow> ((exn \<times> string option \<times> string option) + response) \<times> world" where
  "convert_try env filename target_format w =
     (let (unique_id, w1) = uuid4_hex env w;
          input_filename = secure_filename env (unique_id @ ''_input_'' @ filename);
          input_path = os_path_join UPLOAD_FOLDER input_filename
      in case file_save env input_path w1 of
           (Some exc, w2) \<Rightarrow> (Inl (exc, Some input_path, None), w2)
         | (None, w2) \<Rightarrow>
             (let args = [PStr input_path, PStr target_format];
                  w3 = record_call ''convert_format'' args w2
              in case call_convert_format (processor env) args of
                   Inl exc \<Rightarrow> (Inl (exc, Some input_path, None), w3)
                 | Inr output_path \<Rightarrow>
                     (let w4 = output_written output_path w3
                      in case send_file env output_path (''converted.'' @ target_format)
                                [Some input_path, Some output_path] of
                           Inl exc \<Rightarrow> (Inl (exc, Some input_path, Some output_path), w4)
                         | Inr resp \<Rightarrow> (Inr resp, w4))))"

text \<open>The \<open>except Exception\<close> clause of \<open>convert_audio\<close>.\<close>

definition convert_except ::
  "server \<Rightarrow> exn \<Rightarrow> string option \<Rightarrow> string option \<Rightarrow> world \<Rightarrow> response \<times> world" where
  "convert_except env exc input_path output_path w =
     (json_error 500 (str_exn exc), cleanup_paths env [input_path, output_path] w)"

definition convert_audio :: "server \<Rightarrow> request \<Rightarrow> world \<Rightarrow> response \<times> world" where
  "convert_audio env req w =
     (case request_files req of
        Inl exc \<Rightarrow> (unhandled exc, w)
      | Inr files \<Rightarrow>
     (case map_of files ''file'' of
        None \<Rightarrow> (json_error 400 ''No file provided'', w)
      | Some filename \<Rightarrow>
          (let target_format = map_of (req_form req) ''target_format''
           in if filename = [] then (json_error 400 ''No file selected'', w)
              else if target_format = None \<or> target_format = Some []
              then (json_error 400 ''Missing target_format parameter'', w)
              else (let target_format = lower (the target_format)
                    in if \<not> allowed_file filename then (json_error 400 ''Invalid file type'', w)
                       else if target_format \<notin> ALLOWED_EXTENSIONS
                       then (json_error 400 ''Invalid target format'', w)
                       else case convert_try env filename target_format w of
                              (Inr resp, w') \<Rightarrow> (resp, w')
                            | (Inl (exc, input_path, output_path), w') \<Rightarrow>
                                convert_except env exc input_path output_path w'))))"

subsection \<open>\<open>/merge\<close>\<close>

text \<open>How a piece of a handler ends: it runs to its end, returns a response, or raises.\<close>

datatype flow = Completed | Returned response | Raised exn

text \<open>
  The \<open>for file in files\<close> loop of \<open>merge_audio\<close>, with \<open>file_paths\<close> as it grows.
  An invalid name ends the handler with a 400 after the files saved so far are cleaned
  up.
\<close>

fun merge_save_loop ::
  "server \<Rightarrow> string list \<Rightarrow> string list \<Rightarrow> world \<Rightarrow> flow \<times> string list \<times> world" where
  "merge_save_loop env [] file_paths w = (Completed, file_paths, w)"
| "merge_save_loop env (filename # rest) file_paths w =
     (if \<not> allowed_file filename
      then (Returned (json_error 400 (''Invalid file type: '' @ filename)), file_paths,
            cleanup_paths env (map Some file_paths) w)
      else (let (unique_id, w1) = uuid4_hex env w;
                filename' = secure_filename env (unique_id @ ''_'' @ filename);
                filepath = os_path_join UPLOAD_FOLDER filename'
            in case file_save env filepath w1 of
                 (Some exc, w2) \<Rightarrow> (Raised exc, file_paths, w2)
               | (None, w2) \<Rightarrow> merge_save_loop env rest (file_paths @ [filepath]) w2))"

text \<open>
  The \<open>try\<close> block of \<open>merge_audio\<close>, which holds the whole handler, the reading of
  \<open>request.files\<close> included. When it raises, the result carries the exception,
  \<open>file_paths\<close> and \<open>output_path\<close>.
\<close>

definition merge_try ::
  "server \<Rightarrow> request \<Rightarrow> world
     \<Rightarrow> ((exn \<times> string list \<times> string option) + response) \<times> world" where
  "merge_try env req w =
     (case request_files req of
        Inl exc \<Rightarrow> (Inl (exc, [], None), w)
      | Inr uploads \<Rightarrow>
     (let files = getlist uploads ''files[]''
      in if length files < 2
         then (Inr (json_error 400 ''At least 2 files required for merging''), w)
         else (let output_format = map_of (req_form req) ''output_format''
               in if output_format = None \<or> output_format = Some []
                  then (Inr (json_error 400 ''Missing output_format parameter''), w)
                  else (let output_format = lower (the output_format)
                        in case merge_save_loop env files [] w of
                             (Returned resp, file_paths, w1) \<Rightarrow> (Inr resp, w1)
                           | (Raised exc, file_paths, w1) \<Rightarrow> (Inl (exc, file_paths, None), w1)
                           | (Completed, file_paths, w1) \<Rightarrow>
                               (let args = [PList (map PStr file_paths), PStr output_format];
                                    w2 = record_call ''merge_files'' args w1
                                in case call_merge_files (processor env) args of
                                     Inl exc \<Rightarrow> (Inl (exc, file_paths, None), w2)
                                   | Inr output_path \<Rightarrow>
                                       (let w3 = output_written output_path w2
                                        in case send_file env output_path
                                                  (''merged.'' @ output_format)
                                                  (map Some file_paths @
                                                   (if output_path \<noteq> [] then [Some output_path]
                                                    else [])) of
                                             Inl exc \<Rightarrow>
                                               (Inl (exc, file_paths, Some output_path), w3)
                                           | Inr resp \<Rightarrow> (Inr resp, w3)))))))"

definition merge_error_keywords :: "string list" where
  "merge_error_keywords = [''Invalid file'', ''At least 2 files'', ''Missing output_format'']"

text \<open>The \<open>except Exception\<close> clause of \<open>merge_audio\<close>.\<close>

definition merge_except ::
  "server \<Rightarrow> exn \<Rightarrow> string list \<Rightarrow> string option \<Rightarrow> world \<Rightarrow> response \<times> world" where
  "merge_except env exc file_paths output_path w =
     (let paths_to_clean =
            map Some file_paths @
            (case output_path of
               None \<Rightarrow> []
             | Some p \<Rightarrow> if p \<noteq> [] then [Some p] else []);
          w' = cleanup_paths env paths_to_clean w;
          status_code = (if any_keyword merge_error_keywords exc then 400 else 500)
      in (json_error status_code (str_exn exc), w'))"

definition merge_audio :: "server \<Rightarrow> request \<Rightarrow> world \<Rightarrow> response \<times> world" where
  "merge_audio env req w =
     (case merge_try env req w of
        (Inr resp, w') \<Rightarrow> (resp, w')
      | (Inl (exc, file_paths, output_path), w') \<Rightarrow>
          merge_except env exc file_paths output_path w')"

subsection \<open>\<open>/export\<close>\<close>

text \<open>
  The \<open>try\<close> block of \<open>export_audio\<close>. The processor is called with four positional
  arguments: the path, the format, the bit rate and the sample rate.
\<close>

definition export_try ::
  "server \<Rightarrow> string \<Rightarrow> string \<Rightarrow> string \<Rightarrow> string \<Rightarrow> world
     \<Rightarrow> ((exn \<times> string option \<times> string option) + response) \<times> world" where
  "export_try env filename output_format bitrate sample_rate_str w =
     (let (unique_id, w1) = uuid4_hex env w;
          input_filename = secure_filename env (unique_id @ ''_'' @ filename);
          input_path = os_path_join UPLOAD_FOLDER input_filename
      in case file_save env input_path w1 of
           (Some exc, w2) \<Rightarrow> (Inl (exc, Some input_path, None), w2)
         | (None, w2) \<Rightarrow>
             (case py_int sample_rate_str of
                None \<Rightarrow>
                  (Inl (ValueError ''Sample rate must be an integer'', Some input_path, None), w2)
              | Some sample_rate \<Rightarrow>
                  (let args = [PStr input_path, PStr output_format, PStr bitrate, PInt sample_rate];
                       w3 = record_call ''export_with_settings'' args w2
                   in case call_export_with_settings (processor env) args of
                        Inl exc \<Rightarrow> (Inl (exc, Some input_path, None), w3)
                      | Inr output_path \<Rightarrow>
                          (let w4 = output_written output_path w3
                           in case send_file env output_path (''export.'' @ output_format)
                                     [Some input_path, Some output_path] of
                                Inl exc \<Rightarrow> (Inl (exc, Some input_path, Some output_path), w4)
                              | Inr resp \<Rightarrow> (Inr resp, w4)))))"

definition export_error_keywords :: "string list" where
  "export_error_keywords = [''Sample rate must be'', ''Missing required'']"

text \<open>The \<open>except Exception\<close> clause of \<open>export_audio\<close>.\<close>

definition export_except ::
  "server \<Rightarrow> exn \<Rightarrow> string option \<Rightarrow> string option \<Rightarrow> world \<Rightarrow> response \<times> world" where
  "export_except env exc input_path output_path w =
     (let w' = cleanup_paths env [input_path, output_path] w;
          status_code = (if any_keyword export_error_keywords exc then 400 else 500)
      in (json_error status_code (str_exn exc), w'))"

definition export_audio :: "server \<Rightarrow> request \<Rightarrow> world \<Rightarrow> response \<times> world" where
  "export_audio env req w =
     (case request_files req of
        Inl exc \<Rightarrow> (unhandled exc, w)
      | Inr files \<Rightarrow>
     (case map_of files ''file'' of
        None \<Rightarrow> (json_error 400 ''No file provided'', w)
      | Some filename \<Rightarrow>
          (let output_format = map_of (req_form req) ''format'';
               bitrate = map_of (req_form req) ''bitrate'';
               sample_rate_str = map_of (req_form req) ''sample_rate''
           in if output_format = None \<or> output_format = Some [] \<or>
                 bitrate = None \<or> bitrate = Some [] \<or>
                 sample_rate_str = None \<or> sample_rate_str = Some []
              then (json_error 400
                      ''Missing required export settings (format, bitrate, or sample_rate)'', w)
              else (let output_format = lower (the output_format)
                    in if \<not> allowed_file filename then (json_error 400 ''Invalid file type'', w)
                       else case export_try env filename output_format (the bitrate)
                                   (the sample_rate_str) w of
                              (Inr resp, w') \<Rightarrow> (resp, w')
                            | (Inl (exc, input_path, output_path), w') \<Rightarrow>
                                export_except env exc input_path output_path w'))))"

subsection \<open>\<open>/metadata\<close>\<close>

text \<open>
  The \<open>try\<close> block of \<open>get_metadata\<close> with its \<open>except\<close> clause: the response, and
  the value \<open>filepath\<close> has when the \<open>finally\<close> clause starts.
\<close>

definition metadata_try ::
  "server \<Rightarrow> request \<Rightarrow> world \<Rightarrow> response \<times> string option \<times> world" where
  "metadata_try env req w =
     (case request_files req of
        Inl exc \<Rightarrow> (json_error 500 (str_exn exc), None, w)
      | Inr files \<Rightarrow>
     (case map_of files ''file'' of
        None \<Rightarrow> (json_error 400 ''No file provided'', None, w)
      | Some filename \<Rightarrow>
          if \<not> allowed_file filename then (json_error 400 ''Invalid file type'', None, w)
          else (let (unique_id, w1) = uuid4_hex env w;
                    filename' = secure_filename env (unique_id @ ''_'' @ filename);
                    filepath = os_path_join UPLOAD_FOLDER filename'
                in case file_save env filepath w1 of
                     (Some exc, w2) \<Rightarrow> (json_error 500 (str_exn exc), Some filepath, w2)
                   | (None, w2) \<Rightarrow>
                       (let args = [PStr filepath];
                            w3 = record_call ''get_audio_info'' args w2
                        in case call_get_audio_info (processor env) args of
                             Inl exc \<Rightarrow> (json_error 500 (str_exn exc), Some filepath, w3)
                           | Inr metadata \<Rightarrow>
                               (\<lparr>status = 200, body = JsonBody metadata, call_on_close = []\<rparr>,
                                Some filepath, w3)))))"

text \<open>
  The \<open>finally\<close> clause: \<open>if filepath: try: os.remove(filepath) except OSError: pass\<close>.
\<close>

definition metadata_finally :: "server \<Rightarrow> string option \<Rightarrow> world \<Rightarrow> world" where
  "metadata_finally env filepath w =
     (case filepath of
        None \<Rightarrow> w
      | Some p \<Rightarrow> if p = [] then w else snd (os_remove env p w))"

definition get_metadata :: "server \<Rightarrow> request \<Rightarrow> world \<Rightarrow> response \<times> world" where
  "get_metadata env req w =
     (case metadata_try env req w of
        (resp, filepath, w') \<Rightarrow> (resp, metadata_finally env filepath w'))"

section \<open>Notions used in the statements\<close>

text \<open>
  An entry that the sweep is meant to delete: not a directory, with a modification time
  before the cutoff.
\<close>

definition stale :: "real \<Rightarrow> dir_entry \<Rightarrow> bool" where
  "stale cutoff e =
     (\<not> entry_is_dir e \<and> (case entry_mtime e of Some t \<Rightarrow> t < cutoff | None \<Rightarrow> False))"

text \<open>
  An entry at which the sweep raises: its modification time cannot be read, or it is
  stale and cannot be removed.
\<close>

definition entry_fails :: "real \<Rightarrow> dir_entry \<Rightarrow> bool" where
  "entry_fails cutoff e =
     (\<not> entry_is_dir e \<and> (entry_mtime e = None \<or> (stale cutoff e \<and> \<not> entry_removable e)))"

text \<open>
  The path under which a handler saves an upload: \<open>UPLOAD_FOLDER\<close> joined with
  \<open>secure_filename\<close> of the next uuid, a middle part (\<open>_\<close> or \<open>_input_\<close>) and the name
  of the uploaded file.
\<close>

definition upload_path :: "server \<Rightarrow> world \<Rightarrow> string \<Rightarrow> string \<Rightarrow> string" where
  "upload_path env w middle filename =
     os_path_join UPLOAD_FOLDER
       (secure_filename env (uuid_hex env (uuids_drawn w) @ middle @ filename))"

subsection \<open>Test doubles\<close>

text \<open>
  Concrete surroundings for evaluating the code, in the manner of the mocks of the test
  suite: an audio library whose segments are their lengths and where every file loads
  as a clip of 5000 ms, plain files in a listed directory, a server where nothing fails
  and the n-th \<open>uuid4().hex\<close> is \<open>id\<close> followed by n, and processors whose every
  method raises one exception or returns one value. On the file names used below
  \<open>secure_filename\<close> changes nothing.
\<close>

definition stub_pydub :: "int pydub" where
  "stub_pydub =
     \<lparr>from_file = (\<lambda>p. Inr 5000), seg_len = (\<lambda>a. a),
      seg_add = (\<lambda>a b. Inr (a + b)), seg_append = (\<lambda>a b c. Inr (a + b - c)),
      seg_slice = (\<lambda>a s e. Inr (e - s)), set_frame_rate = (\<lambda>a r. Inr a),
      effects_normalize = (\<lambda>a. Inr a), export = (\<lambda>a p kw. None),
      seg_channels = (\<lambda>a. PInt 2), seg_frame_rate = (\<lambda>a. PInt 44100),
      seg_sample_width = (\<lambda>a. PInt 2), seg_frame_count = (\<lambda>a. PFloat 0),
      seg_dBFS = (\<lambda>a. PFloat (- 20))\<rparr>"

definition file_entry :: "string \<Rightarrow> real \<Rightarrow> bool \<Rightarrow> dir_entry" where
  "file_entry name mtime removable =
     \<lparr>entry_name = name, entry_is_dir = False, entry_mtime = Some mtime,
      entry_removable = removable\<rparr>"

definition listed_folder :: "dir_entry list \<Rightarrow> folder" where
  "listed_folder es = \<lparr>folder_exists = True, listdir_fails = False, entries = es\<rparr>"

definition stub_server :: "processor \<Rightarrow> server" where
  "stub_server p =
     \<lparr>uuid_hex = (\<lambda>n. ''id'' @ str_nat n), secure_filename = (\<lambda>s. s),
      save_raises = (\<lambda>path. None), remove_blocked = (\<lambda>path. False),
      send_file_raises = (\<lambda>path. None), processor = p\<rparr>"

definition raising_processor :: "exn \<Rightarrow> processor" where
  "raising_processor exc =
     \<lparr>call_convert_format = (\<lambda>args. Inl exc), call_merge_files = (\<lambda>args. Inl exc),
      call_export_with_settings = (\<lambda>args. Inl exc), call_get_audio_info = (\<lambda>args. Inl exc)\<rparr>"

definition returning_processor :: "string \<Rightarrow> processor" where
  "returning_processor path =
     \<lparr>call_convert_format = (\<lambda>args. Inr path), call_merge_files = (\<lambda>args. Inr path),
      call_export_with_settings = (\<lambda>args. Inr path),
      call_get_audio_info = (\<lambda>args. Inr (PDict [(''channels'', PInt 2)]))\<rparr>"

definition empty_world :: world where
  "empty_world = \<lparr>fs = {}, trace = [], uuids_drawn = 0\<rparr>"

section \<open>Properties of the string operations\<close>

lemma rfind_None: "rfind c s = None \<longleftrightarrow> c \<notin> set s"
  by (induction s) (auto split: option.splits)

lemma rfind_Some:
  "rfind c s = Some i \<Longrightarrow>
     i < length s \<and> s ! i = c \<and> c \<notin> set (drop (Suc i) s)"
proof (induction s arbitrary: i)
  case Nil
  then show ?case by simp
next
  case (Cons x xs)
  show ?case
  proof (cases "rfind c xs")
    case None
    with Cons.prems have "x = c" "i = 0" by (auto split: if_splits)
    moreover from None have "c \<notin> set xs" by (simp add: rfind_None)
    ultimately show ?thesis by simp
  next
    case (Some j)
    with Cons.prems have i: "i = Suc j" by simp
    from Cons.IH [OF Some] show ?thesis by (simp add: i)
  qed
qed

lemma rsplit1_length:
  "c \<in> set s \<Longrightarrow> length (rsplit1 c s) = 2"
  by (cases "rfind c s") (auto simp: rsplit1_def rfind_None)

lemma rfind_last:
  "c \<notin> set t \<Longrightarrow> rfind c (p @ c # t) = Some (length p)"
proof (induction p)
  case Nil
  then show ?case using rfind_None [of c t] by simp
next
  case (Cons x p)
  then show ?case by simp
qed

lemma rsplit1_last:
  "c \<notin> set t \<Longrightarrow> rsplit1 c (p @ c # t) = [p, t]"
  by (simp add: rsplit1_def rfind_last)

lemma rsplit1_decompose:
  assumes "c \<in> set s"
  shows "\<exists>p t. s = p @ c # t \<and> c \<notin> set t \<and> rsplit1 c s = [p, t]"
proof -
  from assms obtain i where i: "rfind c s = Some i"
    using rfind_None [of c s] by (cases "rfind c s") auto
  from rfind_Some [OF i] have lt: "i < length s" and at: "s ! i = c"
    and notin: "c \<notin> set (drop (Suc i) s)" by auto
  from id_take_nth_drop [OF lt] at have "s = take i s @ c # drop (Suc i) s"
    by simp
  moreover have "rsplit1 c s = [take i s, drop (Suc i) s]"
    by (simp add: rsplit1_def i)
  ultimately show ?thesis using notin by blast
qed

section \<open>The boundary file check\<close>

text \<open>
  Claim C10. \<open>allowed_file filename\<close> is true exactly when the name holds a dot and
  the part after its last dot, lowercased, is one of wav, mp3, ogg, flac: the name splits
  as \<open>pre . ext\<close> with no dot in \<open>ext\<close> and \<open>lower ext\<close> in the set. So the uppercase
  \<open>track.WAV\<close> is accepted and the extensionless \<open>noextension\<close> is rejected.
\<close>

theorem allowed_file_iff_last_extension:
  "(allowed_file filename \<longleftrightarrow>
      (\<exists>pre ext. filename = pre @ CHR ''.'' # ext \<and> CHR ''.'' \<notin> set ext \<and>
         lower ext \<in> {''wav'', ''mp3'', ''ogg'', ''flac''}))
   \<and> allowed_file ''track.WAV''
   \<and> \<not> allowed_file ''noextension''"
proof (intro conjI iffI)
  assume a: "allowed_file filename"
  then have dot: "CHR ''.'' \<in> set filename" by (simp add: allowed_file_def)
  from rsplit1_decompose [OF dot] obtain p t where
    pt: "filename = p @ CHR ''.'' # t" "CHR ''.'' \<notin> set t"
        "rsplit1 CHR ''.'' filename = [p, t]" by blast
  from a pt(3) have "lower t \<in> {''wav'', ''mp3'', ''ogg'', ''flac''}"
    by (simp add: allowed_file_def ALLOWED_EXTENSIONS_def)
  with pt(1,2) show "\<exists>pre ext. filename = pre @ CHR ''.'' # ext \<and> CHR ''.'' \<notin> set ext \<and>
         lower ext \<in> {''wav'', ''mp3'', ''ogg'', ''flac''}" by blast
next
  assume "\<exists>pre ext. filename = pre @ CHR ''.'' # ext \<and> CHR ''.'' \<notin> set ext \<and>
         lower ext \<in> {''wav'', ''mp3'', ''ogg'', ''flac''}"
  then obtain p t where pt: "filename = p @ CHR ''.'' # t" "CHR ''.'' \<notin> set t"
    and ext: "lower t \<in> {''wav'', ''mp3'', ''ogg'', ''flac''}" by blast
  from pt have "rsplit1 CHR ''.'' filename = [p, t]" by (simp add: rsplit1_last)
  with pt(1) ext show "allowed_file filename"
    by (simp add: allowed_file_def ALLOWED_EXTENSIONS_def)
next
  show "allowed_file ''track.WAV''"
    by (simp add: allowed_file_def ALLOWED_EXTENSIONS_def rsplit1_def lower_def lower_char_def)
next
  show "\<not> allowed_file ''noextension''"
    by (simp add: allowed_file_def)
qed

section \<open>The processing layer: trimming and the sweep\<close>

lemma sweep_no_failure:
  "\<forall>e\<in>set es. \<not> entry_fails cutoff e \<Longrightarrow>
   sweep cutoff es n removed =
     (None, n + int (length (filter (stale cutoff) es)),
      removed @ map entry_name (filter (stale cutoff) es))"
proof (induction es arbitrary: n removed)
  case Nil
  then show ?case by simp
next
  case (Cons e es)
  from Cons.prems have rest: "\<forall>e\<in>set es. \<not> entry_fails cutoff e" by simp
  from Cons.prems have e: "\<not> entry_fails cutoff e" by simp
  show ?case
    using e by (auto simp: Cons.IH [OF rest] stale_def entry_fails_def split: option.splits)
qed

lemma sweep_first_failure:
  "\<forall>e\<in>set pre. \<not> entry_fails cutoff e \<Longrightarrow> entry_fails cutoff bad \<Longrightarrow>
   \<exists>m. sweep cutoff (pre @ bad # post) n removed =
     (Some (OSError m), n + int (length (filter (stale cutoff) pre)),
      removed @ map entry_name (filter (stale cutoff) pre))"
proof (induction pre arbitrary: n removed)
  case Nil
  then show ?case by (auto simp: stale_def entry_fails_def split: option.splits)
next
  case (Cons e pre)
  from Cons.prems have rest: "\<forall>e\<in>set pre. \<not> entry_fails cutoff e" by simp
  from Cons.prems have e: "\<not> entry_fails cutoff e" by simp
  note IH = Cons.IH [OF rest Cons.prems(2)]
  show ?case
  proof (cases "stale cutoff e")
    case True
    with e have r: "entry_removable e" "\<not> entry_is_dir e" by (auto simp: entry_fails_def stale_def)
    from True obtain t where t: "entry_mtime e = Some t" "t < cutoff"
      by (auto simp: stale_def split: option.splits)
    from IH [of "n + 1" "removed @ [entry_name e]"] show ?thesis
      using True r t by (simp add: ac_simps)
  next
    case False
    with e IH [of n removed] show ?thesis
      by (auto simp: stale_def entry_fails_def split: option.splits)
  qed
qed

lemma filter_removed_names:
  assumes "distinct (map entry_name (pre @ rest))"
  shows "filter (\<lambda>e. entry_name e \<notin> set (map entry_name (filter P pre))) (pre @ rest)
         = filter (\<lambda>e. \<not> P e) pre @ rest"
proof -
  from assms have "distinct (pre @ rest) \<and> inj_on entry_name (set (pre @ rest))"
    by (simp only: distinct_map)
  then have inj: "inj_on entry_name (set (pre @ rest))" and d: "distinct (pre @ rest)"
    by simp_all
  have a: "filter (\<lambda>e. entry_name e \<notin> set (map entry_name (filter P pre))) pre = filter (\<lambda>e. \<not> P e) pre"
  proof (rule filter_cong [OF refl])
    fix x assume x: "x \<in> set pre"
    show "(entry_name x \<notin> set (map entry_name (filter P pre))) = (\<not> P x)"
      using x inj by (auto simp: inj_on_def)
  qed
  have b: "filter (\<lambda>e. entry_name e \<notin> set (map entry_name (filter P pre))) rest = rest"
  proof -
    have "\<forall>x\<in>set rest. entry_name x \<notin> set (map entry_name (filter P pre))"
      using assms by auto
    then show ?thesis by (simp add: filter_id_conv)
  qed
  show ?thesis by (simp only: filter_append a b)
qed

lemma os_path_join_suffix: "suffix b (os_path_join a b)"
  by (auto simp: os_path_join_def suffix_def)

text \<open>
  Claim C7. For an input that loads as an audio segment, \<open>trim_audio\<close> raises a
  \<open>ValueError\<close> whenever \<open>start_ms < 0\<close>, \<open>end_ms\<close> exceeds the length of the
  segment, or \<open>start_ms \<ge> end_ms\<close>. On a segment of 5000 ms, with a supported output
  format and a library that slices and exports without raising, trimming from 1000 to
  4000 returns the path \<open>upload_folder/<uuid>_trimmed.<output_format>\<close>, which ends
  with \<open>_trimmed.\<close> and the requested extension.
\<close>

theorem trim_audio_range_and_name:
  assumes "from_file pd input_path = Inr audio"
  shows "(start_ms < 0 \<or> end_ms > seg_len pd audio \<or> start_ms \<ge> end_ms \<longrightarrow>
            (\<exists>m. trim_audio pd upload_folder uid input_path start_ms end_ms output_format
                   = Inl (ValueError m)))
       \<and> (seg_len pd audio = 5000 \<and> lower output_format \<in> supported_formats \<and>
          seg_slice pd audio 1000 4000 = Inr trimmed \<and>
          export pd trimmed (os_path_join upload_folder (uid @ ''_trimmed.'' @ output_format))
            [(''format'', PStr output_format)] = None \<longrightarrow>
            trim_audio pd upload_folder uid input_path 1000 4000 output_format
              = Inr (os_path_join upload_folder (uid @ ''_trimmed.'' @ output_format))
            \<and> suffix (''_trimmed.'' @ output_format)
                 (os_path_join upload_folder (uid @ ''_trimmed.'' @ output_format)))"
proof (intro conjI impI)
  assume bad: "start_ms < 0 \<or> end_ms > seg_len pd audio \<or> start_ms \<ge> end_ms"
  show "\<exists>m. trim_audio pd upload_folder uid input_path start_ms end_ms output_format
                   = Inl (ValueError m)"
  proof (cases "lower output_format \<in> supported_formats")
    case True
    with bad assms show ?thesis
      by (auto simp: trim_audio_def validate_format_def Let_def)
  next
    case False
    then show ?thesis by (simp add: trim_audio_def validate_format_def)
  qed
next
  assume ok: "seg_len pd audio = 5000 \<and> lower output_format \<in> supported_formats \<and>
          seg_slice pd audio 1000 4000 = Inr trimmed \<and>
          export pd trimmed (os_path_join upload_folder (uid @ ''_trimmed.'' @ output_format))
            [(''format'', PStr output_format)] = None"
  with assms show "trim_audio pd upload_folder uid input_path 1000 4000 output_format
              = Inr (os_path_join upload_folder (uid @ ''_trimmed.'' @ output_format))"
    by (simp add: trim_audio_def validate_format_def generate_output_path_def)
next
  have "suffix (uid @ ''_trimmed.'' @ output_format)
          (os_path_join upload_folder (uid @ ''_trimmed.'' @ output_format))"
    by (rule os_path_join_suffix)
  then show "suffix (''_trimmed.'' @ output_format)
                 (os_path_join upload_folder (uid @ ''_trimmed.'' @ output_format))"
    by (auto simp: suffix_def)
qed

theorem trim_audio_range_and_name_witness:
  "from_file stub_pydub ''/tmp/in.wav'' = Inr 5000
   \<and> (\<exists>m. trim_audio stub_pydub ''/tmp/out'' ''t_uuid'' ''/tmp/in.wav'' 0 6000 ''wav'' = Inl (ValueError m))
   \<and> (\<exists>m. trim_audio stub_pydub ''/tmp/out'' ''t_uuid'' ''/tmp/in.wav'' 5000 5000 ''wav'' = Inl (ValueError m))
   \<and> trim_audio stub_pydub ''/tmp/out'' ''t_uuid'' ''/tmp/in.wav'' 1000 4000 ''wav''
       = Inr ''/tmp/out/t_uuid_trimmed.wav''"
proof -
  have a: "from_file stub_pydub ''/tmp/in.wav'' = Inr 5000" by (simp add: stub_pydub_def)
  have l: "seg_len stub_pydub 5000 = 5000" by (simp add: stub_pydub_def)
  have s: "seg_slice stub_pydub 5000 1000 4000 = Inr 3000" by (simp add: stub_pydub_def)
  have e: "export stub_pydub 3000 (os_path_join ''/tmp/out'' (''t_uuid'' @ ''_trimmed.'' @ ''wav''))
            [(''format'', PStr ''wav'')] = None" by (simp add: stub_pydub_def)
  have f: "lower ''wav'' \<in> supported_formats"
    by (simp add: lower_def lower_char_def supported_formats_def)
  have p: "os_path_join ''/tmp/out'' (''t_uuid'' @ ''_trimmed.'' @ ''wav'') = ''/tmp/out/t_uuid_trimmed.wav''"
    by (simp add: os_path_join_def)
  from trim_audio_range_and_name [OF a, of 0 6000 "''/tmp/out''" "''t_uuid''" "''wav''" 3000]
       trim_audio_range_and_name [OF a, of 5000 5000 "''/tmp/out''" "''t_uuid''" "''wav''" 3000]
       a l s e f p
  show ?thesis by simp
qed

lemma cleanup_no_failure:
  assumes "folder_exists d" "\<not> listdir_fails d" "distinct (map entry_name (entries d))"
    and ok: "\<forall>e\<in>set (entries d). \<not> entry_fails (now - 3600) e"
  shows "cleanup_old_files now d =
           (int (length (filter (stale (now - 3600)) (entries d))),
            d\<lparr>entries := filter (\<lambda>e. \<not> stale (now - 3600) e) (entries d)\<rparr>, [])"
proof -
  define R where "R = map entry_name (filter (stale (now - 3600)) (entries d))"
  have sw: "sweep (now - 3600) (entries d) 0 [] =
              (None, int (length (filter (stale (now - 3600)) (entries d))), R)"
    by (simp add: sweep_no_failure [OF ok] R_def)
  have "filter (\<lambda>e. entry_name e \<notin> set R) (entries d @ [])
          = filter (\<lambda>e. \<not> stale (now - 3600) e) (entries d) @ []"
    unfolding R_def by (rule filter_removed_names) (use assms in simp)
  then have fl: "filter (\<lambda>e. entry_name e \<notin> set R) (entries d)
          = filter (\<lambda>e. \<not> stale (now - 3600) e) (entries d)" by simp
  show ?thesis
    using assms(1,2) by (simp add: cleanup_old_files_def CLEANUP_THRESHOLD_SECONDS_def sw fl)
qed

lemma cleanup_first_failure:
  assumes "folder_exists d" "\<not> listdir_fails d" "distinct (map entry_name (entries d))"
    and split: "entries d = pre @ bad # post"
    and ok: "\<forall>e\<in>set pre. \<not> entry_fails (now - 3600) e"
    and bad: "entry_fails (now - 3600) bad"
  shows "\<exists>m. cleanup_old_files now d =
           (int (length (filter (stale (now - 3600)) pre)),
            d\<lparr>entries := filter (\<lambda>e. \<not> stale (now - 3600) e) pre @ bad # post\<rparr>,
            [''Error during cleanup: '' @ m])"
proof -
  define R where "R = map entry_name (filter (stale (now - 3600)) pre)"
  from sweep_first_failure [OF ok bad, of post 0 "[]"] obtain m where
    m: "sweep (now - 3600) (entries d) 0 [] =
         (Some (OSError m), int (length (filter (stale (now - 3600)) pre)), R)"
    by (auto simp: R_def split)
  have "filter (\<lambda>e. entry_name e \<notin> set R) (pre @ bad # post)
          = filter (\<lambda>e. \<not> stale (now - 3600) e) pre @ bad # post"
    unfolding R_def by (rule filter_removed_names) (use assms(3) split in simp)
  then have fl: "filter (\<lambda>e. entry_name e \<notin> set R) (entries d)
          = filter (\<lambda>e. \<not> stale (now - 3600) e) pre @ bad # post" by (simp only: split)
  have "cleanup_old_files now d =
           (int (length (filter (stale (now - 3600)) pre)),
            d\<lparr>entries := filter (\<lambda>e. \<not> stale (now - 3600) e) pre @ bad # post\<rparr>,
            [''Error during cleanup: '' @ m])"
    using assms(1,2) by (simp add: cleanup_old_files_def CLEANUP_THRESHOLD_SECONDS_def m fl)
  then show ?thesis by blast
qed

text \<open>
  Claim C4, as amended. For an output directory that exists and can be listed (entry
  names distinct, as in a directory): when no entry makes a call raise,
  \<open>cleanup_old_files\<close> deletes exactly the non-directory entries older than one hour
  and returns their number, printing nothing; when some entry makes \<open>getmtime\<close> or
  \<open>remove\<close> raise, the sweep stops at the first such entry: the stale entries before
  it are deleted and counted, one line is printed, and the failing entry and every
  entry after it are left as they were.
\<close>

theorem cleanup_old_files_sweep:
  assumes "folder_exists d" "\<not> listdir_fails d" "distinct (map entry_name (entries d))"
  shows "((\<forall>e\<in>set (entries d). \<not> entry_fails (now - 3600) e) \<longrightarrow>
            cleanup_old_files now d =
              (int (length (filter (stale (now - 3600)) (entries d))),
               d\<lparr>entries := filter (\<lambda>e. \<not> stale (now - 3600) e) (entries d)\<rparr>, []))
       \<and> (entries d = pre @ bad # post \<and> (\<forall>e\<in>set pre. \<not> entry_fails (now - 3600) e) \<and>
          entry_fails (now - 3600) bad \<longrightarrow>
            (\<exists>m. cleanup_old_files now d =
              (int (length (filter (stale (now - 3600)) pre)),
               d\<lparr>entries := filter (\<lambda>e. \<not> stale (now - 3600) e) pre @ bad # post\<rparr>,
               [''Error during cleanup: '' @ m])))"
  using cleanup_no_failure [OF assms] cleanup_first_failure [OF assms] by blast

theorem cleanup_old_files_sweep_witness:
  "cleanup_old_files 7200
     (listed_folder [file_entry ''a.wav'' 100 True, file_entry ''b.wav'' 5000 True])
     = (1, listed_folder [file_entry ''b.wav'' 5000 True], [])
   \<and> (\<exists>m. cleanup_old_files 7200
     (listed_folder [file_entry ''a.wav'' 100 True, file_entry ''c.wav'' 150 False,
                     file_entry ''b.wav'' 200 True])
     = (1, listed_folder [file_entry ''c.wav'' 150 False, file_entry ''b.wav'' 200 True],
        [''Error during cleanup: '' @ m]))"
  using cleanup_old_files_sweep [of
      "listed_folder [file_entry ''a.wav'' 100 True, file_entry ''b.wav'' 5000 True]" 7200
      "[]" "file_entry ''zz'' 0 True" "[]"]
    cleanup_old_files_sweep [of
      "listed_folder [file_entry ''a.wav'' 100 True, file_entry ''c.wav'' 150 False,
                     file_entry ''b.wav'' 200 True]" 7200
      "[file_entry ''a.wav'' 100 True]" "file_entry ''c.wav'' 150 False"
      "[file_entry ''b.wav'' 200 True]"]
  by (simp add: listed_folder_def file_entry_def stale_def entry_fails_def)

text \<open>
  The claim C4 as stated fails: with two files older than one hour, the first of which
  cannot be removed, the sweep returns 0 and the second file, which comes after the
  failing one, is still in the directory.
\<close>

theorem cleanup_aborts_counterexample:
  "cleanup_old_files 7200
     (listed_folder [file_entry ''a.wav'' 100 False, file_entry ''b.wav'' 200 True])
   = (0, listed_folder [file_entry ''a.wav'' 100 False, file_entry ''b.wav'' 200 True],
      [''Error during cleanup: remove: a.wav''])"
  by (simp add: cleanup_old_files_def listed_folder_def file_entry_def
      CLEANUP_THRESHOLD_SECONDS_def)

text \<open>
  Claim C8. In an output directory whose only non-directory entries are one file older
  than the one-hour threshold and one newer, where both times can be read and the old
  file can be removed, \<open>cleanup_old_files\<close> returns 1, the old file is gone and the
  new one is still there.
\<close>

theorem cleanup_one_old_one_new:
  assumes "folder_exists d" "\<not> listdir_fails d" "distinct (map entry_name (entries d))"
    and "old \<in> set (entries d)" "new \<in> set (entries d)"
    and "\<forall>e\<in>set (entries d). \<not> entry_is_dir e \<longrightarrow> e = old \<or> e = new"
    and "\<not> entry_is_dir old" "entry_mtime old = Some t_old" "t_old < now - 3600"
        "entry_removable old"
    and "\<not> entry_is_dir new" "entry_mtime new = Some t_new" "t_new > now - 3600"
  shows "fst (cleanup_old_files now d) = 1
       \<and> old \<notin> set (entries (fst (snd (cleanup_old_files now d))))
       \<and> entry_name old \<notin> entry_name ` set (entries (fst (snd (cleanup_old_files now d))))
       \<and> new \<in> set (entries (fst (snd (cleanup_old_files now d))))"
proof -
  let ?c = "now - 3600"
  have so: "stale ?c old" and sn: "\<not> stale ?c new"
    using assms by (auto simp: stale_def)
  have only: "\<forall>e\<in>set (entries d). stale ?c e \<longleftrightarrow> e = old"
    using assms(6) so sn by (auto simp: stale_def)
  have ok: "\<forall>e\<in>set (entries d). \<not> entry_fails ?c e"
    using assms(6,8,10,12) sn by (auto simp: entry_fails_def)
  from assms(3) have dist: "distinct (entries d)" by (simp add: distinct_map)
  have "set (filter (stale ?c) (entries d)) = {old}"
    using only assms(4) by auto
  moreover have "distinct (filter (stale ?c) (entries d))" using dist by simp
  ultimately have len: "length (filter (stale ?c) (entries d)) = 1"
    using distinct_card [of "filter (stale ?c) (entries d)"] by simp
  from assms(3) have inj: "inj_on entry_name (set (entries d))" by (simp add: distinct_map)
  have res: "cleanup_old_files now d =
           (int (length (filter (stale ?c) (entries d))),
            d\<lparr>entries := filter (\<lambda>e. \<not> stale ?c e) (entries d)\<rparr>, [])"
    by (rule cleanup_no_failure [OF assms(1-3) ok])
  have "entry_name old \<notin> entry_name ` set (filter (\<lambda>e. \<not> stale ?c e) (entries d))"
  proof
    assume "entry_name old \<in> entry_name ` set (filter (\<lambda>e. \<not> stale ?c e) (entries d))"
    then obtain e where e: "e \<in> set (entries d)" "\<not> stale ?c e" "entry_name e = entry_name old"
      by auto
    with inj assms(4) have "e = old" by (auto simp: inj_on_def)
    with e(2) so show False by simp
  qed
  then show ?thesis using res len so sn assms(5) by (auto simp: image_iff)
qed

theorem cleanup_one_old_one_new_witness:
  "fst (cleanup_old_files 7200
          (listed_folder [file_entry ''old_file.txt'' 3590 True, file_entry ''new_file.txt'' 3610 True])) = 1
   \<and> file_entry ''old_file.txt'' 3590 True \<notin> set (entries (fst (snd (cleanup_old_files 7200
          (listed_folder [file_entry ''old_file.txt'' 3590 True, file_entry ''new_file.txt'' 3610 True])))))
   \<and> file_entry ''new_file.txt'' 3610 True \<in> set (entries (fst (snd (cleanup_old_files 7200
          (listed_folder [file_entry ''old_file.txt'' 3590 True, file_entry ''new_file.txt'' 3610 True])))))"
  using cleanup_one_old_one_new [of
      "listed_folder [file_entry ''old_file.txt'' 3590 True, file_entry ''new_file.txt'' 3610 True]"
      "file_entry ''old_file.txt'' 3590 True" "file_entry ''new_file.txt'' 3610 True" 3590 7200 3610]
  by (simp add: listed_folder_def file_entry_def)

section \<open>The request layer: cleanup, the merge loop and the handlers\<close>

lemmas string_defs = allowed_file_def rsplit1_def lower_def lower_char_def
  ALLOWED_EXTENSIONS_def os_path_join_def UPLOAD_FOLDER_def str_nat.simps digit_char_def
  py_int_def int_strip_def int_space_def digit_val_def parse_limited_def
  int_max_str_digits_def

lemmas io_defs = uuid4_hex_def file_save_def os_remove_def record_call_def output_written_def
  send_file_def json_error_def cleanup_path_def any_keyword_def upload_path_def
  proc_calls_def getlist_def request_files_def MAX_FILE_SIZE_def RequestEntityTooLarge_def

lemmas handler_defs = convert_audio_def convert_try_def convert_except_def
  merge_audio_def merge_try_def merge_except_def merge_error_keywords_def
  export_audio_def export_try_def export_except_def export_error_keywords_def
  get_metadata_def metadata_try_def metadata_finally_def

lemmas stub_defs = stub_server_def raising_processor_def returning_processor_def
  empty_world_def stub_pydub_def real_processor_def

lemmas processor_defs = convert_format_def merge_files_def export_with_settings_def
  get_audio_info_def validate_format_def supported_formats_def supported_formats_joined_def
  generate_output_path_def default_export_params_def default_bitrates_def arity_error_def
  dict_get_def

lemma saved_paths_append: "saved_paths (xs @ ys) = saved_paths xs @ saved_paths ys"
  by (induction xs rule: saved_paths.induct) simp_all

lemma cleanup_path_proc_calls: "proc_calls (cleanup_path env p w) = proc_calls w"
  by (auto simp: cleanup_path_def os_remove_def Let_def proc_calls_def split: option.splits)

lemma cleanup_path_saved:
  "saved_paths (trace (cleanup_path env p w)) = saved_paths (trace w)"
  by (auto simp: cleanup_path_def os_remove_def Let_def saved_paths_append split: option.splits)

lemma cleanup_path_fs:
  "\<forall>q. \<not> remove_blocked env q \<Longrightarrow>
   fs (cleanup_path env p w) = fs w - {q. p = Some q \<and> q \<noteq> []}"
  by (auto simp: cleanup_path_def os_remove_def Let_def split: option.splits)

lemma cleanup_paths_proc_calls: "proc_calls (cleanup_paths env ps w) = proc_calls w"
  by (induction ps arbitrary: w) (simp_all add: cleanup_path_proc_calls)

lemma cleanup_paths_saved:
  "saved_paths (trace (cleanup_paths env ps w)) = saved_paths (trace w)"
  by (induction ps arbitrary: w) (simp_all add: cleanup_path_saved)

lemma cleanup_paths_fs:
  assumes "\<forall>q. \<not> remove_blocked env q"
  shows "fs (cleanup_paths env ps w) = fs w - {q. Some q \<in> set ps \<and> q \<noteq> []}"
proof (induction ps arbitrary: w)
  case Nil
  then show ?case by simp
next
  case (Cons p ps)
  show ?case by (auto simp: Cons.IH cleanup_path_fs [OF assms])
qed

lemma upload_path_nonempty: "os_path_join UPLOAD_FOLDER name \<noteq> []"
  by (simp add: os_path_join_def UPLOAD_FOLDER_def)

lemma merge_save_loop_invalid:
  assumes blocked: "\<forall>p. \<not> remove_blocked env p" and saves: "\<forall>p. save_raises env p = None"
    and "\<exists>f\<in>set files. \<not> allowed_file f"
    and "set (saved_paths (trace w)) \<subseteq> set file_paths" "[] \<notin> set file_paths"
  shows "\<exists>f file_paths' w'. merge_save_loop env files file_paths w =
            (Returned (json_error 400 (''Invalid file type: '' @ f)), file_paths', w')
          \<and> proc_calls w' = proc_calls w
          \<and> (\<forall>p\<in>set (saved_paths (trace w')). p \<notin> fs w')"
  using assms(3-)
proof (induction files arbitrary: file_paths w)
  case Nil
  then show ?case by simp
next
  case (Cons f files)
  show ?case
  proof (cases "allowed_file f")
    case False
    let ?w = "cleanup_paths env (map Some file_paths) w"
    have gone: "\<forall>p\<in>set (saved_paths (trace ?w)). p \<notin> fs ?w"
      using Cons.prems(2,3) by (auto simp: cleanup_paths_saved cleanup_paths_fs [OF blocked])
    have "merge_save_loop env (f # files) file_paths w =
            (Returned (json_error 400 (''Invalid file type: '' @ f)), file_paths, ?w)"
      using False by simp
    with gone show ?thesis using cleanup_paths_proc_calls [of env "map Some file_paths" w]
      by blast
  next
    case True
    with Cons.prems(1) have ex: "\<exists>f\<in>set files. \<not> allowed_file f" by auto
    let ?p = "os_path_join UPLOAD_FOLDER (secure_filename env (uuid_hex env (uuids_drawn w) @ ''_'' @ f))"
    let ?w = "w\<lparr>uuids_drawn := Suc (uuids_drawn w), fs := insert ?p (fs w), trace := trace w @ [FileSave ?p]\<rparr>"
    have step: "merge_save_loop env (f # files) file_paths w
                  = merge_save_loop env files (file_paths @ [?p]) ?w"
      using True saves by (simp add: uuid4_hex_def file_save_def Let_def)
    have "set (saved_paths (trace ?w)) \<subseteq> set (file_paths @ [?p])"
      using Cons.prems(2) by (auto simp: saved_paths_append)
    moreover have "[] \<notin> set (file_paths @ [?p])"
      using Cons.prems(3) upload_path_nonempty [of "secure_filename env (uuid_hex env (uuids_drawn w) @ ''_'' @ f)"]
      by (auto simp del: append.simps)
    ultimately obtain g fps' w' where
      "merge_save_loop env files (file_paths @ [?p]) ?w
         = (Returned (json_error 400 (''Invalid file type: '' @ g)), fps', w')"
      "proc_calls w' = proc_calls ?w" "\<forall>p\<in>set (saved_paths (trace w')). p \<notin> fs w'"
      using Cons.IH [OF ex] by blast
    moreover have "proc_calls ?w = proc_calls w" by (simp add: proc_calls_def)
    ultimately show ?thesis using step by auto
  qed
qed

lemma merge_save_loop_valid:
  assumes saves: "\<forall>p. save_raises env p = None"
    and "\<forall>f\<in>set files. allowed_file f"
  shows "\<exists>file_paths' w'. merge_save_loop env files file_paths w = (Completed, file_paths', w')
          \<and> length file_paths' = length file_paths + length files
          \<and> proc_calls w' = proc_calls w"
  using assms(2)
proof (induction files arbitrary: file_paths w)
  case Nil
  then show ?case by simp
next
  case (Cons f files)
  then have ok: "allowed_file f" and rest: "\<forall>f\<in>set files. allowed_file f" by auto
  let ?p = "os_path_join UPLOAD_FOLDER (secure_filename env (uuid_hex env (uuids_drawn w) @ ''_'' @ f))"
  let ?w = "w\<lparr>uuids_drawn := Suc (uuids_drawn w), fs := insert ?p (fs w), trace := trace w @ [FileSave ?p]\<rparr>"
  have step: "merge_save_loop env (f # files) file_paths w
                = merge_save_loop env files (file_paths @ [?p]) ?w"
    using ok saves by (simp add: uuid4_hex_def file_save_def Let_def)
  from Cons.IH [OF rest, of "file_paths @ [?p]" ?w] obtain fps' w' where
    "merge_save_loop env files (file_paths @ [?p]) ?w = (Completed, fps', w')"
    "length fps' = length (file_paths @ [?p]) + length files"
    "proc_calls w' = proc_calls ?w" by blast
  moreover have "proc_calls ?w = proc_calls w" by (simp add: proc_calls_def)
  ultimately show ?case using step by auto
qed

lemma request_files_within_limit:
  "req_content_length req \<le> MAX_FILE_SIZE \<Longrightarrow> request_files req = Inr (req_files req)"
  by (simp add: request_files_def)

subsection \<open>\<open>/export\<close>\<close>

text \<open>
  Claim C1, as amended. For a \<open>/export\<close> request within the size limit that supplies a
  file with an allowed extension and non-empty \<open>format\<close>, \<open>bitrate\<close> and
  \<open>sample_rate\<close>, where \<open>sample_rate\<close> parses as an integer (and the upload is saved
  without error): the handler calls \<open>export_with_settings\<close> exactly once, with the saved
  path, the lowercased format, the bit rate and the parsed rate; and when that call
  returns a path and \<open>send_file\<close> does not raise, the response is 200 with that file as
  an attachment named \<open>export.\<close> followed by the lowercased format.
\<close>

theorem export_audio_invokes_and_streams:
  assumes "req_content_length req \<le> MAX_FILE_SIZE"
    and "map_of (req_files req) ''file'' = Some filename" "allowed_file filename"
    and "map_of (req_form req) ''format'' = Some fmt" "fmt \<noteq> []"
    and "map_of (req_form req) ''bitrate'' = Some bitrate" "bitrate \<noteq> []"
    and "map_of (req_form req) ''sample_rate'' = Some sample_rate_str" "sample_rate_str \<noteq> []"
    and "py_int sample_rate_str = Some sample_rate"
    and "save_raises env (upload_path env w ''_'' filename) = None"
  shows "proc_calls (snd (export_audio env req w)) =
           proc_calls w @
           [ProcCall ''export_with_settings''
              [PStr (upload_path env w ''_'' filename), PStr (lower fmt), PStr bitrate,
               PInt sample_rate]]
       \<and> (call_export_with_settings (processor env)
            [PStr (upload_path env w ''_'' filename), PStr (lower fmt), PStr bitrate,
             PInt sample_rate] = Inr output_path \<and>
          send_file_raises env output_path = None \<longrightarrow>
            fst (export_audio env req w) =
              \<lparr>status = 200, body = FileBody output_path (''export.'' @ lower fmt),
               call_on_close = [Some (upload_path env w ''_'' filename), Some output_path]\<rparr>)"
proof -
  let ?p = "upload_path env w ''_'' filename"
  let ?args = "[PStr ?p, PStr (lower fmt), PStr bitrate, PInt sample_rate]"
  let ?w2 = "record_call ''export_with_settings'' ?args
               (w\<lparr>uuids_drawn := Suc (uuids_drawn w), fs := insert ?p (fs w),
                  trace := trace w @ [FileSave ?p]\<rparr>)"
  note rf = request_files_within_limit [OF assms(1)]
  have pc: "proc_calls ?w2 = proc_calls w @ [ProcCall ''export_with_settings'' ?args]"
    by (simp add: record_call_def proc_calls_def)
  have pc4: "\<And>out. proc_calls (output_written out ?w2)
               = proc_calls w @ [ProcCall ''export_with_settings'' ?args]"
    using pc by (simp add: output_written_def proc_calls_def)
  show ?thesis
  proof (cases "call_export_with_settings (processor env) ?args")
    case (Inl exc)
    then have tr: "export_try env filename (lower fmt) bitrate sample_rate_str w
               = (Inl (exc, Some ?p, None), ?w2)"
      using assms(10,11)
      by (simp add: export_try_def uuid4_hex_def file_save_def upload_path_def Let_def)
    show ?thesis using assms(2-9) rf tr pc Inl
      by (simp add: export_audio_def export_except_def Let_def cleanup_paths_proc_calls
          del: cleanup_paths.simps)
  next
    case (Inr out)
    show ?thesis
    proof (cases "send_file_raises env out")
      case None
      then have tr: "export_try env filename (lower fmt) bitrate sample_rate_str w
               = (Inr \<lparr>status = 200, body = FileBody out (''export.'' @ lower fmt),
                       call_on_close = [Some ?p, Some out]\<rparr>, output_written out ?w2)"
        using assms(10,11) Inr
        by (simp add: export_try_def uuid4_hex_def file_save_def upload_path_def Let_def
            send_file_def)
      show ?thesis using assms(2-9) rf tr pc4 [of out] Inr
        by (simp add: export_audio_def Let_def)
    next
      case (Some exc)
      then have tr: "export_try env filename (lower fmt) bitrate sample_rate_str w
               = (Inl (exc, Some ?p, Some out), output_written out ?w2)"
        using assms(10,11) Inr
        by (simp add: export_try_def uuid4_hex_def file_save_def upload_path_def Let_def
            send_file_def)
      show ?thesis using assms(2-9) rf tr pc4 [of out] Inr Some
        by (auto simp: export_audio_def export_except_def Let_def cleanup_paths_proc_calls
            simp del: cleanup_paths.simps)
    qed
  qed
qed

theorem export_audio_invokes_and_streams_witness:
  "fst (export_audio (stub_server (returning_processor ''/tmp/exported.flac''))
      \<lparr>req_content_length = 1024, req_files = [(''file'', ''source.wav'')],
       req_form = [(''format'', ''FLAC''), (''bitrate'', ''1411k''), (''sample_rate'', ''96000'')]\<rparr>
      empty_world)
   = \<lparr>status = 200, body = FileBody ''/tmp/exported.flac'' ''export.flac'',
      call_on_close = [Some ''uploads/id0_source.wav'', Some ''/tmp/exported.flac'']\<rparr>
   \<and> proc_calls (snd (export_audio (stub_server (returning_processor ''/tmp/exported.flac''))
      \<lparr>req_content_length = 1024, req_files = [(''file'', ''source.wav'')],
       req_form = [(''format'', ''FLAC''), (''bitrate'', ''1411k''), (''sample_rate'', ''96000'')]\<rparr>
      empty_world))
   = [ProcCall ''export_with_settings''
        [PStr ''uploads/id0_source.wav'', PStr ''flac'', PStr ''1411k'', PInt 96000]]"
  using export_audio_invokes_and_streams [where
      req = "\<lparr>req_content_length = 1024, req_files = [(''file'', ''source.wav'')],
       req_form = [(''format'', ''FLAC''), (''bitrate'', ''1411k''), (''sample_rate'', ''96000'')]\<rparr>"
      and filename = "''source.wav''" and fmt = "''FLAC''" and bitrate = "''1411k''"
      and sample_rate_str = "''96000''" and sample_rate = 96000
      and env = "stub_server (returning_processor ''/tmp/exported.flac'')" and w = empty_world
      and output_path = "''/tmp/exported.flac''"]
  by (simp add: io_defs string_defs stub_defs Let_def)

text \<open>
  The claim C1 as stated fails: a request with all these fields whose body is longer
  than \<open>MAX_CONTENT_LENGTH\<close> is answered 413 when \<open>request.files\<close> is first read, and
  the processor is not called.
\<close>

theorem export_oversize_counterexample:
  "allowed_file ''source.wav'' \<and> py_int ''96000'' = Some 96000
   \<and> MAX_FILE_SIZE < 60000000
   \<and> export_audio (stub_server (returning_processor ''/tmp/exported.flac''))
        \<lparr>req_content_length = 60000000, req_files = [(''file'', ''source.wav'')],
         req_form = [(''format'', ''flac''), (''bitrate'', ''1411k''),
                     (''sample_rate'', ''96000'')]\<rparr>
        empty_world
      = (\<lparr>status = 413,
          body = ErrorPage
            ''413 Request Entity Too Large: The data value transmitted exceeds the capacity limit.'',
          call_on_close = []\<rparr>,
         empty_world)
   \<and> proc_calls (snd (export_audio (stub_server (returning_processor ''/tmp/exported.flac''))
        \<lparr>req_content_length = 60000000, req_files = [(''file'', ''source.wav'')],
         req_form = [(''format'', ''flac''), (''bitrate'', ''1411k''),
                     (''sample_rate'', ''96000'')]\<rparr>
        empty_world)) = []"
  by (simp add: handler_defs io_defs string_defs stub_defs Let_def)

subsection \<open>Unsupported formats\<close>

text \<open>
  Claim C2, on the code. The format \<open>aac\<close> is not supported. \<open>/convert\<close> rejects it
  with 400 before anything else happens. \<open>/merge\<close> saves the uploads and calls
  \<open>merge_files\<close>, whose own validation raises, which gives 500. \<open>/export\<close> calls
  \<open>export_with_settings\<close> with it, and answers 200 when that call returns a path.
\<close>

theorem unsupported_format_reaches_processor:
  "lower ''aac'' \<notin> ALLOWED_EXTENSIONS \<and> lower ''aac'' \<notin> supported_formats
   \<and> fst (merge_audio (stub_server (real_processor stub_pydub ''/tmp/out'' ''p1''))
        \<lparr>req_content_length = 1024, req_files = [(''files[]'', ''track1.wav''), (''files[]'', ''track2.wav'')],
         req_form = [(''output_format'', ''aac'')]\<rparr> empty_world)
     = json_error 500 ''Unsupported format: aac. Supported formats: wav, mp3, ogg, flac, m4a''
   \<and> proc_calls (snd (merge_audio (stub_server (real_processor stub_pydub ''/tmp/out'' ''p1''))
        \<lparr>req_content_length = 1024, req_files = [(''files[]'', ''track1.wav''), (''files[]'', ''track2.wav'')],
         req_form = [(''output_format'', ''aac'')]\<rparr> empty_world))
     = [ProcCall ''merge_files''
          [PList [PStr ''uploads/id0_track1.wav'', PStr ''uploads/id1_track2.wav''], PStr ''aac'']]
   \<and> status (fst (export_audio (stub_server (returning_processor ''/tmp/out/p1_export.aac''))
        \<lparr>req_content_length = 1024, req_files = [(''file'', ''source.wav'')],
         req_form = [(''format'', ''aac''), (''bitrate'', ''128k''), (''sample_rate'', ''44100'')]\<rparr>
        empty_world)) = 200
   \<and> proc_calls (snd (export_audio (stub_server (returning_processor ''/tmp/out/p1_export.aac''))
        \<lparr>req_content_length = 1024, req_files = [(''file'', ''source.wav'')],
         req_form = [(''format'', ''aac''), (''bitrate'', ''128k''), (''sample_rate'', ''44100'')]\<rparr>
        empty_world))
     = [ProcCall ''export_with_settings''
          [PStr ''uploads/id0_source.wav'', PStr ''aac'', PStr ''128k'', PInt 44100]]
   \<and> convert_audio (stub_server (real_processor stub_pydub ''/tmp/out'' ''p1''))
        \<lparr>req_content_length = 1024, req_files = [(''file'', ''a.wav'')], req_form = [(''target_format'', ''aac'')]\<rparr>
        empty_world
     = (json_error 400 ''Invalid target format'', empty_world)"
  by (simp add: handler_defs io_defs string_defs stub_defs processor_defs Let_def)

subsection \<open>Exceptions and status codes\<close>

text \<open>
  Claim C3, as amended. When the \<open>try\<close> block of a handler raises after validation:
  \<open>/convert\<close> always answers 500; \<open>/merge\<close> answers 400 when the message of the
  exception contains \<open>Invalid file\<close>, \<open>At least 2 files\<close> or
  \<open>Missing output_format\<close>, and 500 otherwise; \<open>/export\<close> answers 400 when the
  message contains \<open>Sample rate must be\<close> or \<open>Missing required\<close>, and 500
  otherwise. The body is the error text in each case. (In \<open>/convert\<close> and \<open>/export\<close>
  the \<open>try\<close> block is reached only when the request could be read, so within the size
  limit; in \<open>/merge\<close> the reading is inside the \<open>try\<close>.)
\<close>

theorem exception_status_by_endpoint:
  "(req_content_length req \<le> MAX_FILE_SIZE \<and>
    map_of (req_files req) ''file'' = Some filename \<and> filename \<noteq> [] \<and>
    map_of (req_form req) ''target_format'' = Some fmt \<and> fmt \<noteq> [] \<and>
    allowed_file filename \<and> lower fmt \<in> ALLOWED_EXTENSIONS \<and>
    convert_try env filename (lower fmt) w = (Inl (exc, input_path, output_path), w') \<longrightarrow>
      fst (convert_audio env req w) = json_error 500 (str_exn exc))
   \<and> (merge_try env req w = (Inl (exc, file_paths, output_path), w') \<longrightarrow>
      fst (merge_audio env req w) =
        json_error
          (if any_keyword [''Invalid file'', ''At least 2 files'', ''Missing output_format''] exc
           then 400 else 500)
          (str_exn exc))
   \<and> (req_content_length req \<le> MAX_FILE_SIZE \<and>
      map_of (req_files req) ''file'' = Some filename \<and>
      map_of (req_form req) ''format'' = Some fmt \<and> fmt \<noteq> [] \<and>
      map_of (req_form req) ''bitrate'' = Some bitrate \<and> bitrate \<noteq> [] \<and>
      map_of (req_form req) ''sample_rate'' = Some sample_rate_str \<and> sample_rate_str \<noteq> [] \<and>
      allowed_file filename \<and>
      export_try env filename (lower fmt) bitrate sample_rate_str w
        = (Inl (exc, input_path, output_path), w') \<longrightarrow>
      fst (export_audio env req w) =
        json_error
          (if any_keyword [''Sample rate must be'', ''Missing required''] exc then 400 else 500)
          (str_exn exc))"
  by (simp add: convert_audio_def convert_except_def merge_audio_def merge_except_def
      merge_error_keywords_def export_audio_def export_except_def export_error_keywords_def
      request_files_def Let_def)

theorem exception_status_by_endpoint_witness:
  "fst (convert_try (stub_server (raising_processor (ValueError ''Invalid file header'')))
          ''a.wav'' ''mp3'' empty_world)
     = Inl (ValueError ''Invalid file header'', Some ''uploads/id0_input_a.wav'', None)
   \<and> fst (convert_audio (stub_server (raising_processor (ValueError ''Invalid file header'')))
          \<lparr>req_content_length = 1024, req_files = [(''file'', ''a.wav'')], req_form = [(''target_format'', ''MP3'')]\<rparr>
          empty_world)
     = json_error 500 ''Invalid file header''
   \<and> fst (merge_audio (stub_server (raising_processor (ValueError ''Invalid file header'')))
          \<lparr>req_content_length = 1024, req_files = [(''files[]'', ''a.wav''), (''files[]'', ''b.wav'')],
           req_form = [(''output_format'', ''mp3'')]\<rparr> empty_world)
     = json_error 400 ''Invalid file header''
   \<and> fst (merge_audio (stub_server (raising_processor (AudioProcessingError ''Merge failed: x'')))
          \<lparr>req_content_length = 1024, req_files = [(''files[]'', ''a.wav''), (''files[]'', ''b.wav'')],
           req_form = [(''output_format'', ''mp3'')]\<rparr> empty_world)
     = json_error 500 ''Merge failed: x''
   \<and> fst (export_audio (stub_server (returning_processor ''unused''))
          \<lparr>req_content_length = 1024, req_files = [(''file'', ''a.wav'')],
           req_form = [(''format'', ''flac''), (''bitrate'', ''1411k''),
                       (''sample_rate'', ''invalid_number'')]\<rparr> empty_world)
     = json_error 400 ''Sample rate must be an integer''"
proof -
  let ?E = "stub_server (raising_processor (ValueError ''Invalid file header''))"
  let ?F = "stub_server (raising_processor (AudioProcessingError ''Merge failed: x''))"
  let ?G = "stub_server (returning_processor ''unused'')"
  let ?rc = "\<lparr>req_content_length = 1024, req_files = [(''file'', ''a.wav'')], req_form = [(''target_format'', ''MP3'')]\<rparr>"
  let ?rm = "\<lparr>req_content_length = 1024, req_files = [(''files[]'', ''a.wav''), (''files[]'', ''b.wav'')],
           req_form = [(''output_format'', ''mp3'')]\<rparr>"
  let ?re = "\<lparr>req_content_length = 1024, req_files = [(''file'', ''a.wav'')],
           req_form = [(''format'', ''flac''), (''bitrate'', ''1411k''),
                       (''sample_rate'', ''invalid_number'')]\<rparr>"
  have c: "convert_try ?E ''a.wav'' (lower ''MP3'') empty_world
         = (Inl (ValueError ''Invalid file header'', Some ''uploads/id0_input_a.wav'', None),
            snd (convert_try ?E ''a.wav'' (lower ''MP3'') empty_world))"
    by (simp add: handler_defs io_defs string_defs stub_defs Let_def)
  have m1: "merge_try ?E ?rm empty_world
         = (Inl (ValueError ''Invalid file header'', [''uploads/id0_a.wav'', ''uploads/id1_b.wav''], None),
            snd (merge_try ?E ?rm empty_world))"
    by (simp add: handler_defs io_defs string_defs stub_defs Let_def)
  have m2: "merge_try ?F ?rm empty_world
         = (Inl (AudioProcessingError ''Merge failed: x'', [''uploads/id0_a.wav'', ''uploads/id1_b.wav''], None),
            snd (merge_try ?F ?rm empty_world))"
    by (simp add: handler_defs io_defs string_defs stub_defs Let_def)
  have e: "export_try ?G ''a.wav'' (lower ''flac'') ''1411k'' ''invalid_number'' empty_world
         = (Inl (ValueError ''Sample rate must be an integer'', Some ''uploads/id0_a.wav'', None),
            snd (export_try ?G ''a.wav'' (lower ''flac'') ''1411k'' ''invalid_number'' empty_world))"
    by (simp add: handler_defs io_defs string_defs stub_defs Let_def)
  have l: "lower ''MP3'' = ''mp3''" by (simp add: string_defs)
  have a: "allowed_file ''a.wav''" by (simp add: string_defs)
  have x: "lower ''MP3'' \<in> ALLOWED_EXTENSIONS" by (simp add: string_defs)
  have k1: "any_keyword [''Invalid file'', ''At least 2 files'', ''Missing output_format'']
              (ValueError ''Invalid file header'')" by (simp add: any_keyword_def)
  have k2: "\<not> any_keyword [''Invalid file'', ''At least 2 files'', ''Missing output_format'']
              (AudioProcessingError ''Merge failed: x'')" by (simp add: any_keyword_def)
  have k3: "any_keyword [''Sample rate must be'', ''Missing required'']
              (ValueError ''Sample rate must be an integer'')" by (simp add: any_keyword_def)
  from exception_status_by_endpoint [where req = ?rc and filename = "''a.wav''" and fmt = "''MP3''"
        and env = ?E and w = empty_world and exc = "ValueError ''Invalid file header''"
        and input_path = "Some ''uploads/id0_input_a.wav''" and output_path = None
        and w' = "snd (convert_try ?E ''a.wav'' (lower ''MP3'') empty_world)"]
      c a x
  have r1: "fst (convert_audio ?E ?rc empty_world) = json_error 500 ''Invalid file header''"
    by (simp add: MAX_FILE_SIZE_def)
  from exception_status_by_endpoint [where req = ?rm and env = ?E and w = empty_world
        and exc = "ValueError ''Invalid file header''" and output_path = None
        and file_paths = "[''uploads/id0_a.wav'', ''uploads/id1_b.wav'']"
        and w' = "snd (merge_try ?E ?rm empty_world)"]
      m1 k1
  have r2: "fst (merge_audio ?E ?rm empty_world) = json_error 400 ''Invalid file header''"
    by simp
  from exception_status_by_endpoint [where req = ?rm and env = ?F and w = empty_world
        and exc = "AudioProcessingError ''Merge failed: x''" and output_path = None
        and file_paths = "[''uploads/id0_a.wav'', ''uploads/id1_b.wav'']"
        and w' = "snd (merge_try ?F ?rm empty_world)"]
      m2 k2
  have r3: "fst (merge_audio ?F ?rm empty_world) = json_error 500 ''Merge failed: x''"
    by simp
  from exception_status_by_endpoint [where req = ?re and filename = "''a.wav''" and fmt = "''flac''"
        and env = ?G and w = empty_world and exc = "ValueError ''Sample rate must be an integer''"
        and input_path = "Some ''uploads/id0_a.wav''" and output_path = None
        and bitrate = "''1411k''" and sample_rate_str = "''invalid_number''"
        and w' = "snd (export_try ?G ''a.wav'' (lower ''flac'') ''1411k'' ''invalid_number'' empty_world)"]
      e a k3
  have r4: "fst (export_audio ?G ?re empty_world) = json_error 400 ''Sample rate must be an integer''"
    by (simp add: MAX_FILE_SIZE_def)
  from c l have r0: "fst (convert_try ?E ''a.wav'' ''mp3'' empty_world)
     = Inl (ValueError ''Invalid file header'', Some ''uploads/id0_input_a.wav'', None)"
    by (metis fst_conv)
  from r0 r1 r2 r3 r4 show ?thesis by blast
qed

text \<open>
  The claim C3 as stated fails: the classification is not uniform. The same exception,
  raised by the processor after validation, gives 400 on \<open>/merge\<close> and 500 on
  \<open>/convert\<close> and \<open>/export\<close>.
\<close>

theorem status_not_uniform_counterexample:
  "status (fst (merge_audio (stub_server (raising_processor (ValueError ''Invalid file header'')))
          \<lparr>req_content_length = 1024, req_files = [(''files[]'', ''a.wav''), (''files[]'', ''b.wav'')],
           req_form = [(''output_format'', ''mp3'')]\<rparr> empty_world)) = 400
   \<and> status (fst (convert_audio (stub_server (raising_processor (ValueError ''Invalid file header'')))
          \<lparr>req_content_length = 1024, req_files = [(''file'', ''a.wav'')], req_form = [(''target_format'', ''mp3'')]\<rparr>
          empty_world)) = 500
   \<and> status (fst (export_audio (stub_server (raising_processor (ValueError ''Invalid file header'')))
          \<lparr>req_content_length = 1024, req_files = [(''file'', ''a.wav'')],
           req_form = [(''format'', ''mp3''), (''bitrate'', ''192k''), (''sample_rate'', ''44100'')]\<rparr>
          empty_world)) = 500"
  by (simp add: handler_defs io_defs string_defs stub_defs Let_def)

subsection \<open>\<open>/merge\<close>\<close>

text \<open>
  Claim C5, as amended. A \<open>/merge\<close> request \<^emph>\<open>within the size limit\<close> with exactly
  one file gets the 400 response \<open>At least 2 files required for merging\<close> and changes
  nothing. A request within the size limit with two or more files, all with allowed
  extensions, \<^emph>\<open>and a non-empty\<close> \<open>output_format\<close>, whose uploads are saved without
  error, calls \<open>merge_files\<close> exactly once, with the saved paths and the lowercased
  format.
\<close>

theorem merge_file_count:
  "(req_content_length req \<le> MAX_FILE_SIZE \<and>
    length (getlist (req_files req) ''files[]'') = 1 \<longrightarrow>
      merge_audio env req w = (json_error 400 ''At least 2 files required for merging'', w))
   \<and> (req_content_length req \<le> MAX_FILE_SIZE \<and>
      2 \<le> length (getlist (req_files req) ''files[]'') \<and>
      (\<forall>f\<in>set (getlist (req_files req) ''files[]''). allowed_file f) \<and>
      map_of (req_form req) ''output_format'' = Some fmt \<and> fmt \<noteq> [] \<and>
      (\<forall>p. save_raises env p = None) \<longrightarrow>
        (\<exists>paths. proc_calls (snd (merge_audio env req w)) =
           proc_calls w @ [ProcCall ''merge_files'' [PList (map PStr paths), PStr (lower fmt)]]
           \<and> length paths = length (getlist (req_files req) ''files[]'')))"
proof (intro conjI impI)
  assume "req_content_length req \<le> MAX_FILE_SIZE \<and>
    length (getlist (req_files req) ''files[]'') = 1"
  then show "merge_audio env req w = (json_error 400 ''At least 2 files required for merging'', w)"
    by (simp add: merge_audio_def merge_try_def request_files_def Let_def)
next
  let ?files = "getlist (req_files req) ''files[]''"
  assume a: "req_content_length req \<le> MAX_FILE_SIZE \<and>
      2 \<le> length ?files \<and> (\<forall>f\<in>set ?files. allowed_file f) \<and>
      map_of (req_form req) ''output_format'' = Some fmt \<and> fmt \<noteq> [] \<and>
      (\<forall>p. save_raises env p = None)"
  then have saves: "\<forall>p. save_raises env p = None" and ok: "\<forall>f\<in>set ?files. allowed_file f"
    and rf: "request_files req = Inr (req_files req)"
    by (auto simp: request_files_def)
  from merge_save_loop_valid [OF saves ok, of "[]" w] obtain fps w1 where
    loop: "merge_save_loop env ?files [] w = (Completed, fps, w1)"
    and len: "length fps = length ?files" and pc: "proc_calls w1 = proc_calls w" by auto
  let ?args = "[PList (map PStr fps), PStr (lower fmt)]"
  have called: "proc_calls (record_call ''merge_files'' ?args w1)
                  = proc_calls w @ [ProcCall ''merge_files'' ?args]"
    using pc by (simp add: record_call_def proc_calls_def)
  have "proc_calls (snd (merge_audio env req w)) = proc_calls w @ [ProcCall ''merge_files'' ?args]"
  proof (cases "call_merge_files (processor env) ?args")
    case (Inl exc)
    then show ?thesis using a rf loop called
      by (simp add: merge_audio_def merge_try_def merge_except_def Let_def
          cleanup_paths_proc_calls)
  next
    case (Inr out)
    have w3: "proc_calls (output_written out (record_call ''merge_files'' ?args w1))
                = proc_calls w @ [ProcCall ''merge_files'' ?args]"
      using called by (simp add: output_written_def proc_calls_def)
    show ?thesis
    proof (cases "send_file_raises env out")
      case None
      then show ?thesis using a rf loop Inr w3
        by (simp add: merge_audio_def merge_try_def Let_def send_file_def)
    next
      case (Some exc)
      then show ?thesis using a rf loop Inr w3
        by (simp add: merge_audio_def merge_try_def merge_except_def Let_def send_file_def
            cleanup_paths_proc_calls)
    qed
  qed
  with len show "\<exists>paths. proc_calls (snd (merge_audio env req w)) =
           proc_calls w @ [ProcCall ''merge_files'' [PList (map PStr paths), PStr (lower fmt)]]
           \<and> length paths = length ?files" by blast
qed

theorem merge_file_count_witness:
  "merge_audio (stub_server (returning_processor ''/tmp/merged.ogg''))
        \<lparr>req_content_length = 1024, req_files = [(''files[]'', ''track1.wav'')],
         req_form = [(''output_format'', ''mp3'')]\<rparr>
        empty_world
      = (json_error 400 ''At least 2 files required for merging'', empty_world)
   \<and> proc_calls (snd (merge_audio (stub_server (returning_processor ''/tmp/merged.ogg''))
        \<lparr>req_content_length = 1024,
         req_files = [(''files[]'', ''track1.wav''), (''files[]'', ''track2.wav'')],
         req_form = [(''output_format'', ''OGG'')]\<rparr> empty_world))
      = [ProcCall ''merge_files''
           [PList [PStr ''uploads/id0_track1.wav'', PStr ''uploads/id1_track2.wav''], PStr ''ogg'']]"
  using merge_file_count [of
      "\<lparr>req_content_length = 1024, req_files = [(''files[]'', ''track1.wav'')],
        req_form = [(''output_format'', ''mp3'')]\<rparr>"
      "stub_server (returning_processor ''/tmp/merged.ogg'')" empty_world "''mp3''"]
    merge_file_count [of
      "\<lparr>req_content_length = 1024,
         req_files = [(''files[]'', ''track1.wav''), (''files[]'', ''track2.wav'')],
         req_form = [(''output_format'', ''OGG'')]\<rparr>"
      "stub_server (returning_processor ''/tmp/merged.ogg'')" empty_world "''OGG''"]
  by (simp add: handler_defs io_defs string_defs stub_defs Let_def)

text \<open>
  The claim C5 as stated fails twice: two files with allowed extensions but no
  \<open>output_format\<close> get a 400 and the processor is never called; and a request with one
  file whose body is longer than \<open>MAX_CONTENT_LENGTH\<close> raises inside the \<open>try\<close> when
  \<open>request.files\<close> is read, which the \<open>except\<close> clause answers with 500.
\<close>

theorem merge_claim_counterexample:
  "allowed_file ''track1.wav'' \<and> allowed_file ''track2.wav''
   \<and> merge_audio (stub_server (returning_processor ''/tmp/merged.ogg''))
        \<lparr>req_content_length = 1024,
         req_files = [(''files[]'', ''track1.wav''), (''files[]'', ''track2.wav'')],
         req_form = []\<rparr>
        empty_world
      = (json_error 400 ''Missing output_format parameter'', empty_world)
   \<and> proc_calls (snd (merge_audio (stub_server (returning_processor ''/tmp/merged.ogg''))
        \<lparr>req_content_length = 1024,
         req_files = [(''files[]'', ''track1.wav''), (''files[]'', ''track2.wav'')],
         req_form = []\<rparr>
        empty_world)) = []
   \<and> length (getlist [(''files[]'', ''track1.wav'')] ''files[]'') = 1
   \<and> MAX_FILE_SIZE < 60000000
   \<and> merge_audio (stub_server (returning_processor ''/tmp/merged.ogg''))
        \<lparr>req_content_length = 60000000, req_files = [(''files[]'', ''track1.wav'')],
         req_form = [(''output_format'', ''mp3'')]\<rparr>
        empty_world
      = (json_error 500
           ''413 Request Entity Too Large: The data value transmitted exceeds the capacity limit.'',
         empty_world)"
  by (simp add: handler_defs io_defs string_defs stub_defs Let_def)

text \<open>
  Claim C6, as amended. When at least one file of a \<open>/merge\<close> request \<^emph>\<open>within the
  size limit\<close> has a disallowed extension (and saving the uploads and removing files do
  not fail), the handler answers 400, the processor is not called, and every file the
  handler saved is gone from the disk when it returns.
\<close>

theorem merge_invalid_file_rejected:
  assumes "trace w = []" "\<forall>p. \<not> remove_blocked env p" "\<forall>p. save_raises env p = None"
    and "req_content_length req \<le> MAX_FILE_SIZE"
    and "\<exists>f\<in>set (getlist (req_files req) ''files[]''). \<not> allowed_file f"
  shows "status (fst (merge_audio env req w)) = 400
       \<and> proc_calls (snd (merge_audio env req w)) = []
       \<and> (\<forall>p\<in>set (saved_paths (trace (snd (merge_audio env req w)))).
            p \<notin> fs (snd (merge_audio env req w)))"
proof -
  let ?files = "getlist (req_files req) ''files[]''"
  let ?fmt = "map_of (req_form req) ''output_format''"
  have pc: "proc_calls w = []" using assms(1) by (simp add: proc_calls_def)
  note rf = request_files_within_limit [OF assms(4)]
  show ?thesis
  proof (cases "length ?files < 2 \<or> ?fmt = None \<or> ?fmt = Some []")
    case True
    then show ?thesis using assms(1) pc rf
      by (auto simp: merge_audio_def merge_try_def json_error_def Let_def)
  next
    case False
    from merge_save_loop_invalid [OF assms(2,3,5), of w "[]"] assms(1)
    obtain f fps w' where
      loop: "merge_save_loop env ?files [] w =
            (Returned (json_error 400 (''Invalid file type: '' @ f)), fps, w')"
      and "proc_calls w' = proc_calls w" "\<forall>p\<in>set (saved_paths (trace w')). p \<notin> fs w'"
      by auto
    then show ?thesis using False pc rf
      by (auto simp: merge_audio_def merge_try_def json_error_def Let_def)
  qed
qed

theorem merge_invalid_file_rejected_witness:
  "status (fst (merge_audio (stub_server (returning_processor ''/tmp/merged.ogg''))
            \<lparr>req_content_length = 1024,
             req_files = [(''files[]'', ''track1.wav''), (''files[]'', ''document.pdf'')],
             req_form = [(''output_format'', ''ogg'')]\<rparr> empty_world)) = 400
   \<and> saved_paths (trace (snd (merge_audio (stub_server (returning_processor ''/tmp/merged.ogg''))
            \<lparr>req_content_length = 1024,
             req_files = [(''files[]'', ''track1.wav''), (''files[]'', ''document.pdf'')],
             req_form = [(''output_format'', ''ogg'')]\<rparr> empty_world))) = [''uploads/id0_track1.wav'']
   \<and> ''uploads/id0_track1.wav'' \<notin> fs (snd (merge_audio (stub_server (returning_processor ''/tmp/merged.ogg''))
            \<lparr>req_content_length = 1024,
             req_files = [(''files[]'', ''track1.wav''), (''files[]'', ''document.pdf'')],
             req_form = [(''output_format'', ''ogg'')]\<rparr> empty_world))
   \<and> proc_calls (snd (merge_audio (stub_server (returning_processor ''/tmp/merged.ogg''))
            \<lparr>req_content_length = 1024,
             req_files = [(''files[]'', ''track1.wav''), (''files[]'', ''document.pdf'')],
             req_form = [(''output_format'', ''ogg'')]\<rparr> empty_world)) = []"
  using merge_invalid_file_rejected [of empty_world
      "stub_server (returning_processor ''/tmp/merged.ogg'')"
      "\<lparr>req_content_length = 1024,
        req_files = [(''files[]'', ''track1.wav''), (''files[]'', ''document.pdf'')],
        req_form = [(''output_format'', ''ogg'')]\<rparr>"]
  by (simp add: handler_defs io_defs string_defs stub_defs Let_def)

text \<open>
  The claim C6 as stated fails: a request with a disallowed file whose body is longer
  than \<open>MAX_CONTENT_LENGTH\<close> is answered 500, not 400, since reading \<open>request.files\<close>
  raises inside the \<open>try\<close>.
\<close>

theorem merge_invalid_file_oversize_counterexample:
  "\<not> allowed_file ''document.pdf''
   \<and> MAX_FILE_SIZE < 60000000
   \<and> merge_audio (stub_server (returning_processor ''/tmp/merged.ogg''))
        \<lparr>req_content_length = 60000000,
         req_files = [(''files[]'', ''track1.wav''), (''files[]'', ''document.pdf'')],
         req_form = [(''output_format'', ''ogg'')]\<rparr>
        empty_world
      = (json_error 500
           ''413 Request Entity Too Large: The data value transmitted exceeds the capacity limit.'',
         empty_world)"
  by (simp add: handler_defs io_defs string_defs stub_defs Let_def)

subsection \<open>\<open>/metadata\<close>\<close>

text \<open>
  Claim C9. Whatever the \<open>/metadata\<close> request and whatever the processor does, every
  file the handler saved is gone from the disk when it returns (removing it does not
  fail). In particular, when the upload has an allowed extension and is saved, exactly
  that one file was saved and it is gone, both when \<open>get_audio_info\<close> returns (200 with
  the metadata) and when it raises (500 with the message).
\<close>

theorem get_metadata_removes_saved_file:
  assumes "trace w = []" "\<forall>p. \<not> remove_blocked env p"
  shows "(\<forall>p\<in>set (saved_paths (trace (snd (get_metadata env req w)))).
            p \<notin> fs (snd (get_metadata env req w)))
       \<and> (req_content_length req \<le> MAX_FILE_SIZE \<and>
          map_of (req_files req) ''file'' = Some filename \<and> allowed_file filename \<and>
          save_raises env (upload_path env w ''_'' filename) = None \<longrightarrow>
            saved_paths (trace (snd (get_metadata env req w))) = [upload_path env w ''_'' filename]
            \<and> upload_path env w ''_'' filename \<notin> fs (snd (get_metadata env req w))
            \<and> fst (get_metadata env req w) =
                (case call_get_audio_info (processor env) [PStr (upload_path env w ''_'' filename)] of
                   Inr metadata \<Rightarrow> \<lparr>status = 200, body = JsonBody metadata, call_on_close = []\<rparr>
                 | Inl exc \<Rightarrow> json_error 500 (str_exn exc)))"
proof -
  have nb: "\<And>p. \<not> remove_blocked env p" using assms(2) by simp
  have ne: "\<And>n. os_path_join UPLOAD_FOLDER n \<noteq> []" by (rule upload_path_nonempty)
  show ?thesis
  proof (cases "request_files req")
    case (Inl exc)
    then have "req_content_length req > MAX_FILE_SIZE"
      by (simp add: request_files_def split: if_splits)
    then show ?thesis using Inl assms(1)
      by (simp add: get_metadata_def metadata_try_def metadata_finally_def)
  next
    case (Inr files)
    then have files: "files = req_files req" and lim: "req_content_length req \<le> MAX_FILE_SIZE"
      by (auto simp: request_files_def split: if_splits)
    show ?thesis
    proof (cases "map_of (req_files req) ''file''")
      case None
      then show ?thesis using assms(1) Inr files
        by (simp add: get_metadata_def metadata_try_def metadata_finally_def)
    next
      case (Some f)
      show ?thesis
      proof (cases "allowed_file f")
        case False
        then show ?thesis using Some assms(1) Inr files
          by (auto simp: get_metadata_def metadata_try_def metadata_finally_def)
      next
        case True
        let ?p = "upload_path env w ''_'' f"
        have pne: "?p \<noteq> []" by (simp add: upload_path_def ne)
        show ?thesis
        proof (cases "save_raises env ?p")
          case (Some exc)
          then show ?thesis
            using \<open>map_of (req_files req) ''file'' = Some f\<close> True assms(1) nb pne Inr files
            by (auto simp: get_metadata_def metadata_try_def metadata_finally_def Let_def
                uuid4_hex_def file_save_def os_remove_def upload_path_def saved_paths_append)
        next
          case None
          then show ?thesis
            using \<open>map_of (req_files req) ''file'' = Some f\<close> True assms(1) nb pne Inr files
            by (auto simp: get_metadata_def metadata_try_def metadata_finally_def Let_def
                uuid4_hex_def file_save_def os_remove_def upload_path_def saved_paths_append
                record_call_def split: sum.splits)
        qed
      qed
    qed
  qed
qed

theorem get_metadata_removes_saved_file_witness:
  "get_metadata (stub_server (returning_processor ''unused''))
      \<lparr>req_content_length = 1024, req_files = [(''file'', ''info.mp3'')], req_form = []\<rparr>
      empty_world
     = (\<lparr>status = 200, body = JsonBody (PDict [(''channels'', PInt 2)]), call_on_close = []\<rparr>,
        \<lparr>fs = {},
         trace = [FileSave ''uploads/id0_info.mp3'',
                  ProcCall ''get_audio_info'' [PStr ''uploads/id0_info.mp3''],
                  OsRemove ''uploads/id0_info.mp3''],
         uuids_drawn = 1\<rparr>)
   \<and> get_metadata (stub_server (raising_processor (AudioProcessingError ''Failed to get audio info: x'')))
      \<lparr>req_content_length = 1024, req_files = [(''file'', ''info.mp3'')], req_form = []\<rparr>
      empty_world
     = (json_error 500 ''Failed to get audio info: x'',
        \<lparr>fs = {},
         trace = [FileSave ''uploads/id0_info.mp3'',
                  ProcCall ''get_audio_info'' [PStr ''uploads/id0_info.mp3''],
                  OsRemove ''uploads/id0_info.mp3''],
         uuids_drawn = 1\<rparr>)"
  using get_metadata_removes_saved_file [of empty_world
      "stub_server (returning_processor ''unused'')"
      "\<lparr>req_content_length = 1024, req_files = [(''file'', ''info.mp3'')], req_form = []\<rparr>"
      "''info.mp3''"]
    get_metadata_removes_saved_file [of empty_world
      "stub_server (raising_processor (AudioProcessingError ''Failed to get audio info: x''))"
      "\<lparr>req_content_length = 1024, req_files = [(''file'', ''info.mp3'')], req_form = []\<rparr>"
      "''info.mp3''"]
  by (simp add: handler_defs io_defs string_defs stub_defs Let_def)

end
